theory Spec2Isabelle
  imports Complex_Main "HOL-Library.Multiset" "HOL-Library.Sublist"
begin

section \<open>Values, errors and frames\<close>

text \<open>
  The program (\<^verbatim>\<open>app.py\<close>) is a dashboard over three pandas tables. A cell of a
  table is a missing value (\<open>NaN\<close>), an integer, a float or a text. A float is
  modelled by the rational it denotes; sums are exact (the rounding of float64 and the
  wrap-around of int64 are not modelled: the tables hold small counts).
\<close>

datatype cell = NaN | Ival int | Fval rat | Sval string

text \<open>The exceptions the program can raise, as values.\<close>

datatype error =
    FileNotFoundError
  | ParserError
  | ValueError
  | KeyError string
  | IndexingError
  | TypeError

definition bind_err :: "error + 'a \<Rightarrow> ('a \<Rightarrow> error + 'b) \<Rightarrow> error + 'b" where
  "bind_err m f = (case m of Inl e \<Rightarrow> Inl e | Inr x \<Rightarrow> f x)"

text \<open>
  A frame has its column labels and its rows; every row carries its index label, as
  a row of a pandas frame does (\<^verbatim>\<open>read_csv\<close> numbers the rows \<open>0, 1, ...\<close>, and a
  filtered frame keeps the labels of the rows it keeps). A series is a column of
  labelled values. The model covers frames whose column labels are distinct and whose
  index labels are distinct, as \<^verbatim>\<open>read_csv\<close> and row filtering produce them.
\<close>

record dataframe =
  columns :: "string list"
  rows :: "(nat \<times> cell list) list"

type_synonym 'a series = "(nat \<times> 'a) list"

definition index_of :: "dataframe \<Rightarrow> nat list" where
  "index_of df = map fst (rows df)"

fun column_pos :: "string \<Rightarrow> string list \<Rightarrow> nat option" where
  "column_pos c [] = None"
| "column_pos c (x # xs) = (if x = c then Some 0 else map_option Suc (column_pos c xs))"

text \<open>The cell of a row in column \<open>j\<close>; a frame is rectangular, so \<open>j\<close> is in range.\<close>

definition cell_at :: "cell list \<Rightarrow> nat \<Rightarrow> cell" where
  "cell_at r j = (if j < length r then r ! j else NaN)"

text \<open>The cell in row number \<open>i\<close> (by position) of the column labelled \<open>c\<close>.\<close>

definition frame_cell :: "dataframe \<Rightarrow> nat \<Rightarrow> string \<Rightarrow> cell" where
  "frame_cell df i c =
     (case column_pos c (columns df) of
        None \<Rightarrow> NaN
      | Some j \<Rightarrow> cell_at (snd (rows df ! i)) j)"

text \<open>\<^verbatim>\<open>df[c]\<close>: the column labelled \<open>c\<close>, or \<open>KeyError\<close>.\<close>

definition getitem :: "dataframe \<Rightarrow> string \<Rightarrow> error + cell series" where
  "getitem df c =
     (case column_pos c (columns df) of
        None \<Rightarrow> Inl (KeyError c)
      | Some j \<Rightarrow> Inr (map (\<lambda>(l, r). (l, cell_at r j)) (rows df)))"

text \<open>
  \<^verbatim>\<open>==\<close> between a cell and a scalar: numbers compare by value, texts by their
  characters, a missing value equals nothing, and a number never equals a text.
\<close>

fun py_eq :: "cell \<Rightarrow> cell \<Rightarrow> bool" where
  "py_eq (Ival a) (Ival b) = (a = b)"
| "py_eq (Ival a) (Fval b) = (of_int a = b)"
| "py_eq (Fval a) (Ival b) = (a = of_int b)"
| "py_eq (Fval a) (Fval b) = (a = b)"
| "py_eq (Sval a) (Sval b) = (a = b)"
| "py_eq _ _ = False"

text \<open>\<^verbatim>\<open>s == v\<close>: the boolean series, with the labels of \<open>s\<close>.\<close>

definition series_eq :: "cell series \<Rightarrow> cell \<Rightarrow> bool series" where
  "series_eq s v = map (\<lambda>(l, c). (l, py_eq c v)) s"

text \<open>
  \<^verbatim>\<open>df[key]\<close> with a boolean series as key. pandas (\<^verbatim>\<open>check_bool_indexer\<close>) takes
  the key as it is when its index equals the frame's; otherwise it re-indexes the key
  to the frame's index (with a warning only) and raises \<open>IndexingError\<close> when a
  label of the frame has no entry in the key.
\<close>

definition check_bool_indexer :: "nat list \<Rightarrow> bool series \<Rightarrow> error + bool list" where
  "check_bool_indexer idx key =
     (if map fst key = idx then Inr (map snd key)
      else case those (map (map_of key) idx) of
             None \<Rightarrow> Inl IndexingError
           | Some m \<Rightarrow> Inr m)"

definition getitem_bool :: "dataframe \<Rightarrow> bool series \<Rightarrow> error + dataframe" where
  "getitem_bool df key =
     (case check_bool_indexer (index_of df) key of
        Inl e \<Rightarrow> Inl e
      | Inr m \<Rightarrow> Inr (df\<lparr>rows := map fst (filter snd (zip (rows df) m))\<rparr>))"

section \<open>The filter\<close>

text \<open>
  \<^verbatim>\<open>
  def filter_by_type_strain(df, type_strain_value):
      return df[df['is_type_strain_header'] == type_strain_value]
  \<close>
  The value is a scalar.
\<close>

definition filter_by_type_strain :: "dataframe \<Rightarrow> cell \<Rightarrow> error + dataframe" where
  "filter_by_type_strain df type_strain_value =
     bind_err (getitem df ''is_type_strain_header'')
       (\<lambda>s. getitem_bool df (series_eq s type_strain_value))"

text \<open>A cell whose value is 0 or 1.\<close>

definition is01 :: "cell \<Rightarrow> bool" where
  "is01 c = (py_eq c (Ival 0) \<or> py_eq c (Ival 1))"

section \<open>The loader\<close>

text \<open>
  A delimited file, as the tokenizer of \<^verbatim>\<open>read_csv\<close> hands it on: the column
  labels of the header row (pandas has made them distinct) and the records, each a list
  of text fields. The file system is a function from paths to such contents, or to the
  error that reading the path raises.
\<close>

record csv =
  header :: "string list"
  records :: "string list list"

datatype dtype = Float64 | StrT

text \<open>
  \<^verbatim>\<open>
  dtype_mapping = {
      'ID': 'float64',  # Convert to int later
      'species': 'str',
      'is_type_strain_header': 'float64',  # Convert to int later
      'designation_header': 'str',
      'strain_number_header': 'str',  # Skip this in output
  }
  \<close>
\<close>

definition dtype_mapping :: "(string \<times> dtype) list" where
  "dtype_mapping =
     [(''ID'', Float64),
      (''species'', StrT),
      (''is_type_strain_header'', Float64),
      (''designation_header'', StrT),
      (''strain_number_header'', StrT)]"

text \<open>The fields that \<^verbatim>\<open>read_csv\<close> reads as a missing value (its default list).\<close>

definition na_values :: "string list" where
  "na_values =
     [[], ''#N/A'', ''#N/A N/A'', ''#NA'', ''-1.#IND'', ''-1.#QNAN'', ''-NaN'', ''-nan'',
      ''1.#IND'', ''1.#QNAN'', ''<NA>'', ''N/A'', ''NA'', ''NULL'', ''NaN'', ''None'',
      ''n/a'', ''nan'', ''null'']"

definition is_na :: "string \<Rightarrow> bool" where
  "is_na s = (s \<in> set na_values)"

text \<open>
  Numbers in plain decimal notation: an optional sign, digits, and for a float an
  optional point followed by digits. (pandas reads more notations, such as exponents;
  the model reports those as not numeric.)
\<close>

definition digit_val :: "char \<Rightarrow> nat option" where
  "digit_val c =
     (let k = (of_char c :: nat) in if 48 \<le> k \<and> k \<le> 57 then Some (k - 48) else None)"

fun digits_val :: "string \<Rightarrow> nat \<Rightarrow> nat option" where
  "digits_val [] acc = Some acc"
| "digits_val (c # cs) acc =
     (case digit_val c of None \<Rightarrow> None | Some d \<Rightarrow> digits_val cs (10 * acc + d))"

definition parse_nat :: "string \<Rightarrow> nat option" where
  "parse_nat s = (if s = [] then None else digits_val s 0)"

definition unsigned_float :: "string \<Rightarrow> rat option" where
  "unsigned_float s =
     (let ip = takeWhile (\<lambda>c. c \<noteq> CHR ''.'') s; rest = dropWhile (\<lambda>c. c \<noteq> CHR ''.'') s
      in case parse_nat ip of
           None \<Rightarrow> None
         | Some a \<Rightarrow>
             (if rest = [] then Some (of_nat a)
              else case parse_nat (tl rest) of
                     None \<Rightarrow> None
                   | Some b \<Rightarrow> Some (of_nat a + of_nat b / of_nat (10 ^ length (tl rest)))))"

definition parse_int :: "string \<Rightarrow> int option" where
  "parse_int s =
     (case s of
        [] \<Rightarrow> None
      | c # cs \<Rightarrow>
          if c = CHR ''-'' then map_option (\<lambda>n. - int n) (parse_nat cs)
          else if c = CHR ''+'' then map_option int (parse_nat cs)
          else map_option int (parse_nat s))"

definition parse_float :: "string \<Rightarrow> rat option" where
  "parse_float s =
     (case s of
        [] \<Rightarrow> None
      | c # cs \<Rightarrow>
          if c = CHR ''-'' then map_option uminus (unsigned_float cs)
          else if c = CHR ''+'' then unsigned_float cs
          else unsigned_float s)"

text \<open>
  How a column is converted. A column named in the dtype mapping is converted as the
  mapping says: \<open>float64\<close> fails with \<open>ValueError\<close> on a field that is neither
  missing nor a number; \<open>str\<close> keeps the text. A missing field stays missing under
  both. A column the mapping does not name gets the first dtype that fits all its
  fields: integer, float, text. A key of the mapping that names no column of the file is
  ignored.
\<close>

datatype ckind = AsInt | AsFloat | AsText

definition floatable :: "string \<Rightarrow> bool" where
  "floatable s = (is_na s \<or> parse_float s \<noteq> None)"

definition column_kind :: "dtype option \<Rightarrow> string list \<Rightarrow> error + ckind" where
  "column_kind dt col =
     (case dt of
        Some Float64 \<Rightarrow> (if list_all floatable col then Inr AsFloat else Inl ValueError)
      | Some StrT \<Rightarrow> Inr AsText
      | None \<Rightarrow>
          Inr (if list_all (\<lambda>s. parse_int s \<noteq> None) col then AsInt
               else if list_all floatable col then AsFloat
               else AsText))"

fun convert :: "ckind \<Rightarrow> string \<Rightarrow> cell" where
  "convert AsInt s = (case parse_int s of Some i \<Rightarrow> Ival i | None \<Rightarrow> NaN)"
| "convert AsFloat s =
     (if is_na s then NaN else case parse_float s of Some q \<Rightarrow> Fval q | None \<Rightarrow> NaN)"
| "convert AsText s = (if is_na s then NaN else Sval s)"

fun sequence_err :: "(error + 'a) list \<Rightarrow> error + 'a list" where
  "sequence_err [] = Inr []"
| "sequence_err (m # ms) =
     (case m of
        Inl e \<Rightarrow> Inl e
      | Inr x \<Rightarrow> (case sequence_err ms of Inl e \<Rightarrow> Inl e | Inr xs \<Rightarrow> Inr (x # xs)))"

text \<open>The field of a record in column \<open>j\<close>; a short record is padded with missing fields.\<close>

definition field_at :: "string list \<Rightarrow> nat \<Rightarrow> string" where
  "field_at r j = (if j < length r then r ! j else [])"

text \<open>
  \<^verbatim>\<open>pd.read_csv(file_path, dtype=dtype, low_memory=False)\<close>. A record with more
  fields than the header is reported as \<open>ParserError\<close> (pandas makes the leading
  fields the index when every record is longer; that layout is not modelled). The rows
  are labelled \<open>0, 1, ...\<close>.
\<close>

definition read_csv ::
  "(string \<Rightarrow> error + csv) \<Rightarrow> string \<Rightarrow> (string \<times> dtype) list \<Rightarrow> error + dataframe" where
  "read_csv fs file_path dtype =
     bind_err (fs file_path) (\<lambda>f.
       if list_ex (\<lambda>r. length (header f) < length r) (records f) then Inl ParserError
       else
         bind_err
           (sequence_err
              (map (\<lambda>j. column_kind (map_of dtype (header f ! j))
                           (map (\<lambda>r. field_at r j) (records f)))
                 [0..<length (header f)]))
           (\<lambda>kinds.
              Inr \<lparr>columns = header f,
                   rows = zip [0..<length (records f)]
                            (map (\<lambda>r. map (\<lambda>j. convert (kinds ! j) (field_at r j))
                                          [0..<length (header f)])
                               (records f))\<rparr>))"

text \<open>The field in record number \<open>i\<close> of the column labelled \<open>c\<close>.\<close>

definition csv_field :: "csv \<Rightarrow> nat \<Rightarrow> string \<Rightarrow> string" where
  "csv_field f i c =
     (case column_pos c (header f) of
        None \<Rightarrow> []
      | Some j \<Rightarrow> field_at (records f ! i) j)"

text \<open>\<^verbatim>\<open>s.fillna(v)\<close> and \<^verbatim>\<open>s.astype(int)\<close>: a float is truncated towards zero.\<close>

definition fillna :: "cell \<Rightarrow> cell series \<Rightarrow> cell series" where
  "fillna v s = map (\<lambda>(l, c). (l, if c = NaN then v else c)) s"

definition trunc :: "rat \<Rightarrow> int" where
  "trunc q = (if 0 \<le> q then \<lfloor>q\<rfloor> else \<lceil>q\<rceil>)"

fun to_int :: "cell \<Rightarrow> error + cell" where
  "to_int NaN = Inl ValueError"
| "to_int (Ival i) = Inr (Ival i)"
| "to_int (Fval q) = Inr (Ival (trunc q))"
| "to_int (Sval s) = (case parse_int s of None \<Rightarrow> Inl ValueError | Some i \<Rightarrow> Inr (Ival i))"

definition astype_int :: "cell series \<Rightarrow> error + cell series" where
  "astype_int s =
     bind_err (sequence_err (map (\<lambda>(l, c). to_int c) s)) (\<lambda>cs. Inr (zip (map fst s) cs))"

text \<open>
  \<^verbatim>\<open>df[c] = s\<close>: the values of \<open>s\<close> are matched to the rows by label; a row whose
  label \<open>s\<close> lacks gets a missing value. An existing column is replaced, a new one
  is appended.
\<close>

definition setitem :: "dataframe \<Rightarrow> string \<Rightarrow> cell series \<Rightarrow> dataframe" where
  "setitem df c s =
     (let val = (\<lambda>l. case map_of s l of None \<Rightarrow> NaN | Some v \<Rightarrow> v) in
      case column_pos c (columns df) of
        Some j \<Rightarrow> df\<lparr>rows := map (\<lambda>(l, r). (l, r[j := val l])) (rows df)\<rparr>
      | None \<Rightarrow>
          \<lparr>columns = columns df @ [c],
           rows = map (\<lambda>(l, r). (l, r @ [val l])) (rows df)\<rparr>)"

text \<open>\<^verbatim>\<open>df.drop(columns=[c])\<close>: \<open>KeyError\<close> when no column has the label.\<close>

definition drop_column :: "dataframe \<Rightarrow> string \<Rightarrow> error + dataframe" where
  "drop_column df c =
     (if c \<in> set (columns df) then
        Inr \<lparr>columns = filter (\<lambda>x. x \<noteq> c) (columns df),
             rows = map (\<lambda>(l, r). (l, map snd (filter (\<lambda>(x, v). x \<noteq> c) (zip (columns df) r))))
                      (rows df)\<rparr>
      else Inl (KeyError c))"

text \<open>
  \<^verbatim>\<open>
  def load_and_clean_data(file_path):
      df = pd.read_csv(file_path, dtype=dtype_mapping, low_memory=False)
      df['ID'] = df['ID'].fillna(0).astype(int)
      df['is_type_strain_header'] = df['is_type_strain_header'].fillna(0).astype(int)
      df = df.drop(columns=['strain_number_header'])
      return df
  \<close>
\<close>

definition load_and_clean_data :: "(string \<Rightarrow> error + csv) \<Rightarrow> string \<Rightarrow> error + dataframe" where
  "load_and_clean_data fs file_path =
     bind_err (read_csv fs file_path dtype_mapping) (\<lambda>df.
     bind_err (getitem df ''ID'') (\<lambda>ids.
     bind_err (astype_int (fillna (Ival 0) ids)) (\<lambda>ids'.
     let df1 = setitem df ''ID'' ids' in
     bind_err (getitem df1 ''is_type_strain_header'') (\<lambda>ts.
     bind_err (astype_int (fillna (Ival 0) ts)) (\<lambda>ts'.
     let df2 = setitem df1 ''is_type_strain_header'' ts' in
     drop_column df2 ''strain_number_header'')))))"

section \<open>Metabolite counts and the statistics table\<close>

text \<open>
  \<^verbatim>\<open>
  def count_metabolites(df):
      metabolite_columns = df.columns[4:]  # Assuming metabolites start from the 5th column
      return df[metabolite_columns].sum()
  \<close>
  The sum of a column skips missing values. A text among the cells to be summed is
  reported as \<open>TypeError\<close>: the tables are meant to hold numbers there, and what pandas
  makes of a text column depends on its version.
\<close>

definition value_of :: "cell \<Rightarrow> rat" where
  "value_of c = (case c of Ival i \<Rightarrow> of_int i | Fval q \<Rightarrow> q | _ \<Rightarrow> 0)"

definition is_text :: "cell \<Rightarrow> bool" where
  "is_text c = (case c of Sval s \<Rightarrow> True | _ \<Rightarrow> False)"

definition metabolite_columns :: "dataframe \<Rightarrow> (nat \<times> string) list" where
  "metabolite_columns df = drop 4 (zip [0..<length (columns df)] (columns df))"

definition count_metabolites :: "dataframe \<Rightarrow> error + (string \<times> rat) list" where
  "count_metabolites df =
     (if list_ex (\<lambda>(j, c). list_ex (\<lambda>(l, r). is_text (cell_at r j)) (rows df))
           (metabolite_columns df)
      then Inl TypeError
      else Inr (map (\<lambda>(j, c). (c, sum_list (map (\<lambda>(l, r). value_of (cell_at r j)) (rows df))))
                  (metabolite_columns df)))"

text \<open>\<^verbatim>\<open>.sum()\<close> of the series of column sums.\<close>

definition series_sum :: "(string \<times> rat) list \<Rightarrow> rat" where
  "series_sum s = sum_list (map snd s)"

text \<open>
  \<^verbatim>\<open>s.unique()\<close>: the distinct values in the order of their first occurrence; the
  missing value counts as one value.
\<close>

definition same_value :: "cell \<Rightarrow> cell \<Rightarrow> bool" where
  "same_value a b = (py_eq a b \<or> (a = NaN \<and> b = NaN))"

fun unique :: "cell list \<Rightarrow> cell list" where
  "unique [] = []"
| "unique (x # xs) = x # unique (filter (\<lambda>y. \<not> same_value x y) xs)"

record stats_row =
  category :: string
  species_count :: nat
  prod_metabolites :: rat
  util_metabolites :: rat
  anti_metabolites :: rat

text \<open>
  One partition of the statistics: the four values the source computes for
  \<^verbatim>\<open>prod_df['is_type_strain_header'] == p\<close>, in the order of the source:
  \<^verbatim>\<open>
  type_strain_species_count = len(prod_df[prod_df['is_type_strain_header'] == 1]['species'].unique())
  type_strain_prod = count_metabolites(prod_df[prod_df['is_type_strain_header'] == 1]).sum()
  type_strain_util = count_metabolites(util_df[prod_df['is_type_strain_header'] == 1]).sum()
  type_strain_anti = count_metabolites(anti_df[prod_df['is_type_strain_header'] == 1]).sum()
  \<close>
\<close>

definition masked_count :: "dataframe \<Rightarrow> bool series \<Rightarrow> error + rat" where
  "masked_count df sel =
     bind_err (getitem_bool df sel) (\<lambda>d.
     bind_err (count_metabolites d) (\<lambda>s. Inr (series_sum s)))"

definition partition_statistics ::
  "dataframe \<Rightarrow> dataframe \<Rightarrow> dataframe \<Rightarrow> cell \<Rightarrow> error + (nat \<times> rat \<times> rat \<times> rat)" where
  "partition_statistics prod_df util_df anti_df p =
     bind_err (getitem prod_df ''is_type_strain_header'') (\<lambda>ts.
     let sel = series_eq ts p in
     bind_err (getitem_bool prod_df sel) (\<lambda>d.
     bind_err (getitem d ''species'') (\<lambda>sp.
     let n_species = length (unique (map snd sp)) in
     bind_err (masked_count prod_df sel) (\<lambda>n_prod.
     bind_err (masked_count util_df sel) (\<lambda>n_util.
     bind_err (masked_count anti_df sel) (\<lambda>n_anti.
     Inr (n_species, n_prod, n_util, n_anti)))))))"

text \<open>
  \<^verbatim>\<open>
  def compute_statistics(prod_df, util_df, anti_df):
      ...  # type strain statistics, then non-type strain statistics
      total_species_count = type_strain_species_count + non_type_strain_species_count
      total_prod = type_strain_prod + non_type_strain_prod
      total_util = type_strain_util + non_type_strain_util
      total_anti = type_strain_anti + non_type_strain_anti
      stats.append(['Type Strain', ...])
      stats.append(['Non-Type Strain', ...])
      stats.append(['Total', total_species_count, total_prod, total_util, total_anti])
  \<close>
\<close>

definition compute_statistics ::
  "dataframe \<Rightarrow> dataframe \<Rightarrow> dataframe \<Rightarrow> error + stats_row list" where
  "compute_statistics prod_df util_df anti_df =
     bind_err (partition_statistics prod_df util_df anti_df (Ival 1))
       (\<lambda>(type_strain_species_count, type_strain_prod, type_strain_util, type_strain_anti).
     bind_err (partition_statistics prod_df util_df anti_df (Ival 0))
       (\<lambda>(non_type_strain_species_count, non_type_strain_prod, non_type_strain_util,
           non_type_strain_anti).
     let total_species_count = type_strain_species_count + non_type_strain_species_count;
         total_prod = type_strain_prod + non_type_strain_prod;
         total_util = type_strain_util + non_type_strain_util;
         total_anti = type_strain_anti + non_type_strain_anti
     in Inr
       [\<lparr>category = ''Type Strain'', species_count = type_strain_species_count,
          prod_metabolites = type_strain_prod, util_metabolites = type_strain_util,
          anti_metabolites = type_strain_anti\<rparr>,
        \<lparr>category = ''Non-Type Strain'', species_count = non_type_strain_species_count,
          prod_metabolites = non_type_strain_prod, util_metabolites = non_type_strain_util,
          anti_metabolites = non_type_strain_anti\<rparr>,
        \<lparr>category = ''Total'', species_count = total_species_count,
          prod_metabolites = total_prod, util_metabolites = total_util,
          anti_metabolites = total_anti\<rparr>]))"

text \<open>
  The reading of the statistics that the specification gives: the rows of a table
  \<open>t\<close> are selected by position, row \<open>i\<close> when the type-strain cell of row \<open>i\<close> of
  the production table equals \<open>p\<close>, and the metabolite cells (columns 4 and up) of the
  selected rows are added.
\<close>

definition frame_flag :: "dataframe \<Rightarrow> cell list \<Rightarrow> cell" where
  "frame_flag df r =
     (case column_pos ''is_type_strain_header'' (columns df) of
        None \<Rightarrow> NaN
      | Some j \<Rightarrow> cell_at r j)"

definition flag_at :: "dataframe \<Rightarrow> nat \<Rightarrow> cell" where
  "flag_at prod_df i = frame_cell prod_df i ''is_type_strain_header''"

definition row_total :: "dataframe \<Rightarrow> nat \<Rightarrow> rat" where
  "row_total t i =
     (\<Sum>j\<leftarrow>[4..<length (columns t)]. value_of (cell_at (snd (rows t ! i)) j))"

definition positional_mask_total :: "dataframe \<Rightarrow> cell \<Rightarrow> dataframe \<Rightarrow> rat" where
  "positional_mask_total prod_df p t =
     (\<Sum>i\<leftarrow>[0..<length (rows t)]. if py_eq (flag_at prod_df i) p then row_total t i else 0)"

text \<open>
  The distinct species among the rows of the production table whose own type-strain
  cell equals \<open>p\<close>, and a table without text in its metabolite columns.
\<close>

definition partition_species :: "dataframe \<Rightarrow> cell \<Rightarrow> cell list" where
  "partition_species prod_df p =
     (case column_pos ''species'' (columns prod_df) of
        None \<Rightarrow> []
      | Some js \<Rightarrow>
          unique (map (\<lambda>(l, r). cell_at r js)
                    (filter (\<lambda>(l, r). py_eq (frame_flag prod_df r) p) (rows prod_df))))"

definition numeric_metabolites :: "dataframe \<Rightarrow> bool" where
  "numeric_metabolites df =
     list_all (\<lambda>(l, r). list_all (\<lambda>j. \<not> is_text (cell_at r j)) [4..<length (columns df)])
       (rows df)"

text \<open>A frame whose rows are labelled \<open>0, 1, ...\<close>, as \<^verbatim>\<open>read_csv\<close> labels them.\<close>

definition range_index :: "dataframe \<Rightarrow> bool" where
  "range_index df = (index_of df = [0..<length (rows df)])"

section \<open>The filter dispatch\<close>

text \<open>
  \<^verbatim>\<open>
  if show_type_strain_1 and not show_type_strain_0:
      prod_df_filtered = filter_by_type_strain(prod_df, 1)
      util_df_filtered = filter_by_type_strain(util_df, 1)
      anti_df_filtered = filter_by_type_strain(anti_df, 1)
  elif not show_type_strain_1 and show_type_strain_0:
      ...  # the same with 0
  else:
      prod_df_filtered = prod_df
      util_df_filtered = util_df
      anti_df_filtered = anti_df
  \<close>
\<close>

definition filter_all ::
  "cell \<Rightarrow> dataframe \<Rightarrow> dataframe \<Rightarrow> dataframe \<Rightarrow> error + (dataframe \<times> dataframe \<times> dataframe)" where
  "filter_all v prod_df util_df anti_df =
     bind_err (filter_by_type_strain prod_df v) (\<lambda>prod_df_filtered.
     bind_err (filter_by_type_strain util_df v) (\<lambda>util_df_filtered.
     bind_err (filter_by_type_strain anti_df v) (\<lambda>anti_df_filtered.
     Inr (prod_df_filtered, util_df_filtered, anti_df_filtered))))"

definition filter_dispatch ::
  "bool \<Rightarrow> bool \<Rightarrow> dataframe \<Rightarrow> dataframe \<Rightarrow> dataframe
    \<Rightarrow> error + (dataframe \<times> dataframe \<times> dataframe)" where
  "filter_dispatch show_type_strain_1 show_type_strain_0 prod_df util_df anti_df =
     (if show_type_strain_1 \<and> \<not> show_type_strain_0 then
        filter_all (Ival 1) prod_df util_df anti_df
      else if \<not> show_type_strain_1 \<and> show_type_strain_0 then
        filter_all (Ival 0) prod_df util_df anti_df
      else Inr (prod_df, util_df, anti_df))"

text \<open>The rows of a frame whose own type-strain cell equals \<open>v\<close>.\<close>

definition own_partition :: "dataframe \<Rightarrow> cell \<Rightarrow> (nat \<times> cell list) list" where
  "own_partition df v =
     (case column_pos ''is_type_strain_header'' (columns df) of
        None \<Rightarrow> []
      | Some j \<Rightarrow> filter (\<lambda>(l, r). py_eq (cell_at r j) v) (rows df))"

section \<open>The species ranking\<close>

text \<open>
  \<^verbatim>\<open>df['species'].value_counts().head(10)\<close>. \<^verbatim>\<open>value_counts\<close> drops the missing
  values, counts every distinct value (the table of counts is built in the order in
  which the values first occur) and sorts the table by descending count.
  The sort is pandas' \<^verbatim>\<open>sort_values\<close> with its default algorithm, which is not a
  stable one: the order it gives to equal counts is not fixed by the program. It is a
  parameter here, of which only \<open>descending_sort\<close> is known.
\<close>

fun count_table :: "cell list \<Rightarrow> (cell \<times> nat) list" where
  "count_table [] = []"
| "count_table (x # xs) =
     (x, Suc (length (filter (same_value x) xs)))
       # count_table (filter (\<lambda>y. \<not> same_value x y) xs)"

definition descending_sort :: "((cell \<times> nat) list \<Rightarrow> (cell \<times> nat) list) \<Rightarrow> bool" where
  "descending_sort sort_values =
     (\<forall>xs. mset (sort_values xs) = mset xs
          \<and> sorted_wrt (\<lambda>a b. snd b \<le> snd a) (sort_values xs))"

definition value_counts ::
  "((cell \<times> nat) list \<Rightarrow> (cell \<times> nat) list) \<Rightarrow> cell series \<Rightarrow> (cell \<times> nat) list" where
  "value_counts sort_values s =
     sort_values (count_table (filter (\<lambda>c. c \<noteq> NaN) (map snd s)))"

text \<open>\<^verbatim>\<open>.head(n)\<close> for a count \<open>n\<close> (the program passes 10).\<close>

definition head :: "nat \<Rightarrow> 'a list \<Rightarrow> 'a list" where
  "head n xs = take n xs"

definition top_species ::
  "((cell \<times> nat) list \<Rightarrow> (cell \<times> nat) list) \<Rightarrow> nat \<Rightarrow> dataframe
    \<Rightarrow> error + (cell \<times> nat) list" where
  "top_species sort_values n df =
     bind_err (getitem df ''species'') (\<lambda>s. Inr (head n (value_counts sort_values s)))"

text \<open>One sort that meets \<open>descending_sort\<close>: insertion sort on the negated counts.\<close>

definition insertion_sort_desc :: "(cell \<times> nat) list \<Rightarrow> (cell \<times> nat) list" where
  "insertion_sort_desc xs = sort_key (\<lambda>p. - int (snd p)) xs"

section \<open>Example tables\<close>

text \<open>
  Three small tables in the loaded layout. The utilization table's own type-strain
  column differs from the production table's; \<open>Bacillus\<close> occurs in both partitions
  of the production table.
\<close>

definition loaded_columns :: "string list \<Rightarrow> string list" where
  "loaded_columns ms = [''ID'', ''species'', ''is_type_strain_header'', ''designation_header''] @ ms"

definition ex_prod :: dataframe where
  "ex_prod =
     \<lparr>columns = loaded_columns [''metA'', ''metB''],
      rows = [(0, [Ival 1, Sval ''Bacillus'', Ival 1, Sval ''x'', Ival 2, Ival 0]),
              (1, [Ival 2, Sval ''Bacillus'', Ival 0, Sval ''y'', Ival 0, Ival 3]),
              (2, [Ival 3, Sval ''Vibrio'', Ival 1, Sval ''z'', Ival 1, Ival 1])]\<rparr>"

definition ex_util :: dataframe where
  "ex_util =
     \<lparr>columns = loaded_columns [''utilA''],
      rows = [(0, [Ival 1, Sval ''Bacillus'', Ival 0, Sval ''x'', Ival 5]),
              (1, [Ival 2, Sval ''Bacillus'', Ival 0, Sval ''y'', Ival 7]),
              (2, [Ival 3, Sval ''Vibrio'', Ival 1, Sval ''z'', Ival 11])]\<rparr>"

definition ex_anti :: dataframe where
  "ex_anti =
     \<lparr>columns = loaded_columns [''antiA'', ''antiB''],
      rows = [(0, [Ival 1, Sval ''Bacillus'', Ival 1, Sval ''x'', Ival 1, Ival 0]),
              (1, [Ival 2, Sval ''Bacillus'', Ival 1, Sval ''y'', Ival 0, Ival 1]),
              (2, [Ival 3, Sval ''Vibrio'', Ival 0, Sval ''z'', Ival 1, Ival 1])]\<rparr>"

text \<open>The utilization table without its last row, and with one row more.\<close>

definition ex_util_short :: dataframe where
  "ex_util_short = ex_util\<lparr>rows := take 2 (rows ex_util)\<rparr>"

definition ex_util_long :: dataframe where
  "ex_util_long =
     ex_util\<lparr>rows := rows ex_util @ [(3, [Ival 4, Sval ''Vibrio'', Ival 0, Sval ''w'', Ival 13])]\<rparr>"

text \<open>The antimicrobial table with one row more.\<close>

definition ex_anti_long :: dataframe where
  "ex_anti_long =
     ex_anti\<lparr>rows := rows ex_anti @ [(3, [Ival 4, Sval ''Vibrio'', Ival 0, Sval ''w'', Ival 1, Ival 0])]\<rparr>"

text \<open>
  Files: the example of the specification with the \<open>ID\<close> and the type-strain field
  of the second record left blank, and files that lack one of the fixed columns.
\<close>

definition ex_file :: csv where
  "ex_file =
     \<lparr>header = [''ID'', ''species'', ''is_type_strain_header'', ''designation_header'',
                ''strain_number_header'', ''metA'', ''metB''],
      records = [[''1'', ''A'', ''1'', ''x'', ''DSM 1'', ''2'', ''0''],
                 [[], ''B'', [], ''y'', ''DSM 2'', ''0'', ''3'']]\<rparr>"

definition ex_file_no_species :: csv where
  "ex_file_no_species =
     \<lparr>header = [''ID'', ''is_type_strain_header'', ''designation_header'',
                ''strain_number_header'', ''metA''],
      records = [[''1'', ''1'', ''x'', ''DSM 1'', ''2'']]\<rparr>"

definition ex_file_no_designation :: csv where
  "ex_file_no_designation =
     \<lparr>header = [''ID'', ''species'', ''is_type_strain_header'', ''strain_number_header'',
                ''metA'', ''metB''],
      records = [[''1'', ''A'', ''1'', ''DSM 1'', ''2'', ''0'']]\<rparr>"

definition ex_file_no_id :: csv where
  "ex_file_no_id =
     \<lparr>header = [''species'', ''is_type_strain_header'', ''designation_header'',
                ''strain_number_header'', ''metA''],
      records = [[''A'', ''1'', ''x'', ''DSM 1'', ''2'']]\<rparr>"

definition ex_fs :: "string \<Rightarrow> error + csv" where
  "ex_fs path =
     (if path = ''metabolites/prod.csv'' then Inr ex_file
      else if path = ''no_species.csv'' then Inr ex_file_no_species
      else if path = ''no_designation.csv'' then Inr ex_file_no_designation
      else if path = ''no_id.csv'' then Inr ex_file_no_id
      else Inl FileNotFoundError)"

text \<open>The statistics of the example tables, and with the shortened utilization table.\<close>

definition ex_stats :: "stats_row list" where
  "ex_stats =
     [\<lparr>category = ''Type Strain'', species_count = 2, prod_metabolites = 4,
        util_metabolites = 16, anti_metabolites = 3\<rparr>,
      \<lparr>category = ''Non-Type Strain'', species_count = 1, prod_metabolites = 3,
        util_metabolites = 7, anti_metabolites = 1\<rparr>,
      \<lparr>category = ''Total'', species_count = 3, prod_metabolites = 7,
        util_metabolites = 23, anti_metabolites = 4\<rparr>]"

definition ex_stats_short :: "stats_row list" where
  "ex_stats_short =
     [\<lparr>category = ''Type Strain'', species_count = 2, prod_metabolites = 4,
        util_metabolites = 5, anti_metabolites = 3\<rparr>,
      \<lparr>category = ''Non-Type Strain'', species_count = 1, prod_metabolites = 3,
        util_metabolites = 7, anti_metabolites = 1\<rparr>,
      \<lparr>category = ''Total'', species_count = 3, prod_metabolites = 7,
        util_metabolites = 12, anti_metabolites = 4\<rparr>]"

section \<open>Facts about the filter\<close>

lemma mask_filter: "map fst (filter snd (zip xs (map f xs))) = filter f xs"
  by (induction xs) auto

lemma getitem_bool_own:
  "getitem_bool df (map (\<lambda>(l, r). (l, f l r)) (rows df)) =
     Inr (df\<lparr>rows := filter (\<lambda>(l, r). f l r) (rows df)\<rparr>)"
proof -
  let ?key = "map (\<lambda>(l, r). (l, f l r)) (rows df)"
  have idx: "map fst ?key = index_of df"
    by (simp add: index_of_def case_prod_unfold comp_def)
  have m: "map snd ?key = map (\<lambda>(l, r). f l r) (rows df)"
    by (simp add: case_prod_unfold comp_def)
  show ?thesis
    unfolding getitem_bool_def check_bool_indexer_def idx m
    by (simp add: mask_filter)
qed

lemma filter_by_type_strain_rows:
  "filter_by_type_strain df v =
     (case column_pos ''is_type_strain_header'' (columns df) of
        None \<Rightarrow> Inl (KeyError ''is_type_strain_header'')
      | Some j \<Rightarrow> Inr (df\<lparr>rows := filter (\<lambda>(l, r). py_eq (cell_at r j) v) (rows df)\<rparr>))"
proof (cases "column_pos ''is_type_strain_header'' (columns df)")
  case None
  then show ?thesis
    by (simp add: filter_by_type_strain_def getitem_def bind_err_def)
next
  case (Some j)
  have key: "series_eq (map (\<lambda>(l, r). (l, cell_at r j)) (rows df)) v =
      map (\<lambda>(l, r). (l, py_eq (cell_at r j) v)) (rows df)"
    by (simp add: series_eq_def case_prod_unfold comp_def)
  show ?thesis
    using Some getitem_bool_own [of df "\<lambda>l r. py_eq (cell_at r j) v"]
    by (simp add: filter_by_type_strain_def getitem_def bind_err_def key)
qed

lemma py_eq_not_both: "py_eq c (Ival 1) \<Longrightarrow> \<not> py_eq c (Ival 0)"
  by (cases c) auto

text \<open>
  C4. For a table whose type-strain cells are all 0 or 1, filtering by 1 and filtering
  by 0 both succeed, the rows of the two results together are, as a multiset, exactly the
  rows of the table, and each result keeps the columns and is a subsequence of the rows
  of the table (the rows it keeps are unchanged and in their original order).
\<close>

theorem filter_by_type_strain_partition:
  assumes col: "column_pos ''is_type_strain_header'' (columns t) = Some j"
    and vals: "list_all (\<lambda>(l, r). is01 (cell_at r j)) (rows t)"
  shows "\<exists>t1 t0. filter_by_type_strain t (Ival 1) = Inr t1
            \<and> filter_by_type_strain t (Ival 0) = Inr t0
            \<and> mset (rows t1 @ rows t0) = mset (rows t)
            \<and> subseq (rows t1) (rows t) \<and> subseq (rows t0) (rows t)
            \<and> columns t1 = columns t \<and> columns t0 = columns t"
proof -
  let ?P = "\<lambda>(l, r). py_eq (cell_at r j) (Ival 1)"
  let ?Q = "\<lambda>(l, r). py_eq (cell_at r j) (Ival 0)"
  have f1: "filter_by_type_strain t (Ival 1) = Inr (t\<lparr>rows := filter ?P (rows t)\<rparr>)"
    using col by (simp add: filter_by_type_strain_rows)
  have f0: "filter_by_type_strain t (Ival 0) = Inr (t\<lparr>rows := filter ?Q (rows t)\<rparr>)"
    using col by (simp add: filter_by_type_strain_rows)
  have "filter ?Q (rows t) = filter (\<lambda>x. \<not> ?P x) (rows t)"
  proof (rule filter_cong [OF refl])
    fix x assume "x \<in> set (rows t)"
    with vals have "is01 (cell_at (snd x) j)"
      by (auto simp: list_all_iff)
    then show "?Q x = (\<not> ?P x)"
      using py_eq_not_both [of "cell_at (snd x) j"]
      by (auto simp: is01_def case_prod_unfold)
  qed
  then have part: "mset (filter ?P (rows t) @ filter ?Q (rows t)) = mset (rows t)"
    by simp
  show ?thesis
    using f1 f0 part by simp
qed

theorem filter_by_type_strain_partition_witness:
  "column_pos ''is_type_strain_header'' (columns ex_prod) = Some 2
   \<and> list_all (\<lambda>(l, r). is01 (cell_at r 2)) (rows ex_prod)
   \<and> filter_by_type_strain ex_prod (Ival 1) = Inr (ex_prod\<lparr>rows := [rows ex_prod ! 0, rows ex_prod ! 2]\<rparr>)
   \<and> filter_by_type_strain ex_prod (Ival 0) = Inr (ex_prod\<lparr>rows := [rows ex_prod ! 1]\<rparr>)
   \<and> (\<exists>t1 t0. filter_by_type_strain ex_prod (Ival 1) = Inr t1
            \<and> filter_by_type_strain ex_prod (Ival 0) = Inr t0
            \<and> mset (rows t1 @ rows t0) = mset (rows ex_prod)
            \<and> subseq (rows t1) (rows ex_prod) \<and> subseq (rows t0) (rows ex_prod)
            \<and> columns t1 = columns ex_prod \<and> columns t0 = columns ex_prod)"
proof -
  have col: "column_pos ''is_type_strain_header'' (columns ex_prod) = Some 2"
    by code_simp
  have vals: "list_all (\<lambda>(l, r). is01 (cell_at r 2)) (rows ex_prod)"
    by code_simp
  have e1: "filter_by_type_strain ex_prod (Ival 1) = Inr (ex_prod\<lparr>rows := [rows ex_prod ! 0, rows ex_prod ! 2]\<rparr>)"
    by code_simp
  have e0: "filter_by_type_strain ex_prod (Ival 0) = Inr (ex_prod\<lparr>rows := [rows ex_prod ! 1]\<rparr>)"
    by code_simp
  from filter_by_type_strain_partition [OF col vals] col vals e1 e0
  show ?thesis by blast
qed

lemma py_eq_outside:
  "is01 c \<Longrightarrow> \<not> py_eq (Ival 0) v \<Longrightarrow> \<not> py_eq (Ival 1) v \<Longrightarrow> \<not> py_eq c v"
  by (cases c; cases v) (auto simp: is01_def)

text \<open>
  C10. For a table whose type-strain cells are all 0 or 1 and a scalar \<open>v\<close> that
  equals neither 0 nor 1, the filter does not fail: it returns the table's columns with
  no rows.
\<close>

theorem filter_by_type_strain_other_value:
  assumes col: "column_pos ''is_type_strain_header'' (columns t) = Some j"
    and vals: "list_all (\<lambda>(l, r). is01 (cell_at r j)) (rows t)"
    and v0: "\<not> py_eq (Ival 0) v" and v1: "\<not> py_eq (Ival 1) v"
  shows "filter_by_type_strain t v = Inr \<lparr>columns = columns t, rows = []\<rparr>"
proof -
  have "filter (\<lambda>(l, r). py_eq (cell_at r j) v) (rows t) = []"
    using vals py_eq_outside [OF _ v0 v1]
    by (auto simp: filter_empty_conv list_all_iff)
  then show ?thesis
    using col by (simp add: filter_by_type_strain_rows)
qed

theorem filter_by_type_strain_other_value_witness:
  "column_pos ''is_type_strain_header'' (columns ex_prod) = Some 2
   \<and> list_all (\<lambda>(l, r). is01 (cell_at r 2)) (rows ex_prod)
   \<and> \<not> py_eq (Ival 0) (Ival 2) \<and> \<not> py_eq (Ival 1) (Ival 2)
   \<and> filter_by_type_strain ex_prod (Ival 2) = Inr \<lparr>columns = columns ex_prod, rows = []\<rparr>
   \<and> filter_by_type_strain ex_prod (Sval ''1'') = Inr \<lparr>columns = columns ex_prod, rows = []\<rparr>"
proof -
  have col: "column_pos ''is_type_strain_header'' (columns ex_prod) = Some 2"
    by code_simp
  have vals: "list_all (\<lambda>(l, r). is01 (cell_at r 2)) (rows ex_prod)"
    by code_simp
  have a: "\<not> py_eq (Ival 0) (Ival 2)" "\<not> py_eq (Ival 1) (Ival 2)"
    by simp_all
  have b: "\<not> py_eq (Ival 0) (Sval ''1'')" "\<not> py_eq (Ival 1) (Sval ''1'')"
    by simp_all
  from filter_by_type_strain_other_value [OF col vals a]
    filter_by_type_strain_other_value [OF col vals b] col vals a
  show ?thesis by blast
qed

section \<open>Facts about the filter dispatch\<close>

lemma filter_by_type_strain_own:
  "column_pos ''is_type_strain_header'' (columns df) \<noteq> None \<Longrightarrow>
     filter_by_type_strain df v = Inr (df\<lparr>rows := own_partition df v\<rparr>)"
  by (auto simp: filter_by_type_strain_rows own_partition_def)

text \<open>
  C5. When the two checkboxes are in the same state (both selected or both deselected),
  the three tables are passed on unfiltered. When exactly one is selected, each of the
  three tables is replaced by the rows whose own type-strain cell equals the selected
  value (1 for the first checkbox, 0 for the second); this needs the type-strain column
  in each of the three tables.
\<close>

theorem filter_dispatch_policy:
  "(s1 = s0 \<longrightarrow> filter_dispatch s1 s0 prod_df util_df anti_df = Inr (prod_df, util_df, anti_df))
   \<and> (s1 \<noteq> s0
        \<and> column_pos ''is_type_strain_header'' (columns prod_df) \<noteq> None
        \<and> column_pos ''is_type_strain_header'' (columns util_df) \<noteq> None
        \<and> column_pos ''is_type_strain_header'' (columns anti_df) \<noteq> None
      \<longrightarrow> filter_dispatch s1 s0 prod_df util_df anti_df =
            Inr (prod_df\<lparr>rows := own_partition prod_df (Ival (if s1 then 1 else 0))\<rparr>,
                 util_df\<lparr>rows := own_partition util_df (Ival (if s1 then 1 else 0))\<rparr>,
                 anti_df\<lparr>rows := own_partition anti_df (Ival (if s1 then 1 else 0))\<rparr>))"
proof (intro conjI impI)
  assume "s1 = s0"
  then show "filter_dispatch s1 s0 prod_df util_df anti_df = Inr (prod_df, util_df, anti_df)"
    by (auto simp: filter_dispatch_def)
next
  assume a: "s1 \<noteq> s0
        \<and> column_pos ''is_type_strain_header'' (columns prod_df) \<noteq> None
        \<and> column_pos ''is_type_strain_header'' (columns util_df) \<noteq> None
        \<and> column_pos ''is_type_strain_header'' (columns anti_df) \<noteq> None"
  then have "filter_all v prod_df util_df anti_df =
      Inr (prod_df\<lparr>rows := own_partition prod_df v\<rparr>,
           util_df\<lparr>rows := own_partition util_df v\<rparr>,
           anti_df\<lparr>rows := own_partition anti_df v\<rparr>)" for v
    by (simp add: filter_all_def bind_err_def filter_by_type_strain_own)
  with a show "filter_dispatch s1 s0 prod_df util_df anti_df =
            Inr (prod_df\<lparr>rows := own_partition prod_df (Ival (if s1 then 1 else 0))\<rparr>,
                 util_df\<lparr>rows := own_partition util_df (Ival (if s1 then 1 else 0))\<rparr>,
                 anti_df\<lparr>rows := own_partition anti_df (Ival (if s1 then 1 else 0))\<rparr>)"
    by (cases s1; cases s0) (simp_all add: filter_dispatch_def)
qed

theorem filter_dispatch_policy_witness:
  "filter_dispatch True True ex_prod ex_util ex_anti = Inr (ex_prod, ex_util, ex_anti)
   \<and> filter_dispatch False False ex_prod ex_util ex_anti = Inr (ex_prod, ex_util, ex_anti)
   \<and> filter_dispatch True False ex_prod ex_util ex_anti =
       Inr (ex_prod\<lparr>rows := [rows ex_prod ! 0, rows ex_prod ! 2]\<rparr>,
            ex_util\<lparr>rows := [rows ex_util ! 2]\<rparr>,
            ex_anti\<lparr>rows := [rows ex_anti ! 0, rows ex_anti ! 1]\<rparr>)
   \<and> filter_dispatch False True ex_prod ex_util ex_anti =
       Inr (ex_prod\<lparr>rows := [rows ex_prod ! 1]\<rparr>,
            ex_util\<lparr>rows := [rows ex_util ! 0, rows ex_util ! 1]\<rparr>,
            ex_anti\<lparr>rows := [rows ex_anti ! 2]\<rparr>)"
proof -
  have c: "column_pos ''is_type_strain_header'' (columns ex_prod) \<noteq> None"
    "column_pos ''is_type_strain_header'' (columns ex_util) \<noteq> None"
    "column_pos ''is_type_strain_header'' (columns ex_anti) \<noteq> None"
    by code_simp+
  have p: "own_partition ex_prod (Ival 1) = [rows ex_prod ! 0, rows ex_prod ! 2]"
    "own_partition ex_util (Ival 1) = [rows ex_util ! 2]"
    "own_partition ex_anti (Ival 1) = [rows ex_anti ! 0, rows ex_anti ! 1]"
    "own_partition ex_prod (Ival 0) = [rows ex_prod ! 1]"
    "own_partition ex_util (Ival 0) = [rows ex_util ! 0, rows ex_util ! 1]"
    "own_partition ex_anti (Ival 0) = [rows ex_anti ! 2]"
    by code_simp+
  show ?thesis
    using filter_dispatch_policy [of True True ex_prod ex_util ex_anti]
      filter_dispatch_policy [of False False ex_prod ex_util ex_anti]
      filter_dispatch_policy [of True False ex_prod ex_util ex_anti]
      filter_dispatch_policy [of False True ex_prod ex_util ex_anti]
    by (simp add: c p)
qed

section \<open>Facts about the loader\<close>

lemma bind_err_Inr: "bind_err m f = Inr y \<longleftrightarrow> (\<exists>x. m = Inr x \<and> f x = Inr y)"
  by (cases m) (auto simp: bind_err_def)

lemma sequence_err_Inr:
  "sequence_err ms = Inr xs \<Longrightarrow> length xs = length ms \<and> (\<forall>i<length ms. ms ! i = Inr (xs ! i))"
proof (induction ms arbitrary: xs)
  case Nil
  then show ?case by simp
next
  case (Cons m ms)
  then show ?case
    by (auto split: sum.splits simp: nth_Cons split: nat.splits)
qed

lemma zip_upt_map: "zip [0..<length rs] (map h rs) = map (\<lambda>i. (i, h (rs ! i))) [0..<length rs]"
  by (rule nth_equalityI) auto

lemma map_of_tabulate: "l < n \<Longrightarrow> map_of (map (\<lambda>i. (i, f i)) [0..<n]) l = Some (f l)"
  by (rule map_of_is_SomeI) (auto simp: comp_def)

lemma column_pos_Some: "column_pos c cols = Some j \<Longrightarrow> j < length cols \<and> cols ! j = c"
  by (induction cols arbitrary: j) (auto split: if_splits)

lemma column_pos_None: "column_pos c cols = None \<longleftrightarrow> c \<notin> set cols"
  by (induction cols) auto

lemma read_csv_Inr:
  assumes "read_csv fs p dt = Inr df"
  shows "\<exists>f kinds. fs p = Inr f \<and> columns df = header f
     \<and> rows df = map (\<lambda>i. (i, map (\<lambda>j. convert (kinds ! j) (field_at (records f ! i) j))
                                  [0..<length (header f)])) [0..<length (records f)]
     \<and> length kinds = length (header f)
     \<and> (\<forall>j<length (header f). column_kind (map_of dt (header f ! j))
                 (map (\<lambda>r. field_at r j) (records f)) = Inr (kinds ! j))"
proof -
  from assms obtain f where f: "fs p = Inr f"
    by (auto simp: read_csv_def bind_err_Inr)
  from assms f obtain kinds where
    k: "sequence_err (map (\<lambda>j. column_kind (map_of dt (header f ! j))
                           (map (\<lambda>r. field_at r j) (records f))) [0..<length (header f)]) = Inr kinds"
    and df: "df = \<lparr>columns = header f,
                   rows = zip [0..<length (records f)]
                            (map (\<lambda>r. map (\<lambda>j. convert (kinds ! j) (field_at r j))
                                          [0..<length (header f)])
                               (records f))\<rparr>"
    by (auto simp: read_csv_def bind_err_def split: if_splits sum.splits)
  from sequence_err_Inr [OF k] have
    "length kinds = length (header f)"
    "\<forall>j<length (header f). column_kind (map_of dt (header f ! j))
                 (map (\<lambda>r. field_at r j) (records f)) = Inr (kinds ! j)"
    by auto
  with f df show ?thesis
    by (auto simp: zip_upt_map)
qed

lemma getitem_Inr:
  "getitem df c = Inr s \<Longrightarrow>
     \<exists>j. column_pos c (columns df) = Some j \<and> s = map (\<lambda>(l, r). (l, cell_at r j)) (rows df)"
  by (auto simp: getitem_def split: option.splits)

lemma astype_int_Inr:
  assumes "astype_int (map (\<lambda>i. (i, h i)) [0..<n]) = Inr s'"
  shows "\<exists>h'. s' = map (\<lambda>i. (i, h' i)) [0..<n] \<and> (\<forall>i<n. to_int (h i) = Inr (h' i))"
proof -
  from assms obtain cs where
    cs: "sequence_err (map (\<lambda>i. to_int (h i)) [0..<n]) = Inr cs"
    and s': "s' = zip [0..<n] cs"
    by (auto simp: astype_int_def bind_err_Inr comp_def)
  from sequence_err_Inr [OF cs] have len: "length cs = n"
    and each: "\<forall>i<n. to_int (h i) = Inr (cs ! i)"
    by auto
  have "zip [0..<n] cs = map (\<lambda>i. (i, cs ! i)) [0..<n]"
    using len by (intro nth_equalityI) auto
  with s' each show ?thesis
    by blast
qed

lemma setitem_rows:
  assumes "column_pos c (columns df) = Some j"
    and "rows df = map (\<lambda>i. (i, g i)) [0..<n]"
  shows "setitem df c (map (\<lambda>i. (i, h i)) [0..<n]) =
           df\<lparr>rows := map (\<lambda>i. (i, (g i)[j := h i])) [0..<n]\<rparr>"
  using assms by (simp add: setitem_def map_of_tabulate)

lemma to_int_Ival: "to_int c = Inr c' \<Longrightarrow> \<exists>k. c' = Ival k"
  by (cases c) (auto split: option.splits)

lemma drop_cell:
  "length r = length cols \<Longrightarrow> column_pos c' cols = Some j \<Longrightarrow> c' \<noteq> c \<Longrightarrow>
     \<exists>j'. column_pos c' (filter (\<lambda>x. x \<noteq> c) cols) = Some j'
        \<and> cell_at (map snd (filter (\<lambda>(x, v). x \<noteq> c) (zip cols r))) j' = cell_at r j"
proof (induction cols arbitrary: r j)
  case Nil
  then show ?case by simp
next
  case (Cons x cols)
  then obtain v r' where r: "r = v # r'" "length r' = length cols"
    by (cases r) auto
  show ?case
  proof (cases "x = c'")
    case True
    with Cons.prems r show ?thesis
      by (auto simp: cell_at_def)
  next
    case False
    with Cons.prems obtain j0 where j0: "column_pos c' cols = Some j0" "j = Suc j0"
      by auto
    from Cons.IH [OF r(2) j0(1) Cons.prems(3)] obtain j' where
      "column_pos c' (filter (\<lambda>x. x \<noteq> c) cols) = Some j'"
      "cell_at (map snd (filter (\<lambda>(x, v). x \<noteq> c) (zip cols r'))) j' = cell_at r' j0"
      by blast
    with False r j0 show ?thesis
      by (auto simp: cell_at_def)
  qed
qed

lemma load_and_clean_data_Inr:
  assumes "load_and_clean_data fs p = Inr df"
  shows "\<exists>f kinds j1 j2 a b.
      fs p = Inr f
    \<and> length kinds = length (header f)
    \<and> (\<forall>j<length (header f). column_kind (map_of dtype_mapping (header f ! j))
                 (map (\<lambda>r. field_at r j) (records f)) = Inr (kinds ! j))
    \<and> column_pos ''ID'' (header f) = Some j1
    \<and> column_pos ''is_type_strain_header'' (header f) = Some j2
    \<and> ''strain_number_header'' \<in> set (header f)
    \<and> columns df = filter (\<lambda>x. x \<noteq> ''strain_number_header'') (header f)
    \<and> rows df = map (\<lambda>i. (i, map snd (filter (\<lambda>(x, v). x \<noteq> ''strain_number_header'')
                 (zip (header f)
                    ((map (\<lambda>j. convert (kinds ! j) (field_at (records f ! i) j))
                        [0..<length (header f)])[j1 := a i, j2 := b i])))))
               [0..<length (records f)]
    \<and> (\<forall>i<length (records f).
          to_int (if convert (kinds ! j1) (field_at (records f ! i) j1) = NaN then Ival 0
                  else convert (kinds ! j1) (field_at (records f ! i) j1)) = Inr (a i))
    \<and> (\<forall>i<length (records f).
          to_int (if convert (kinds ! j2) (field_at (records f ! i) j2) = NaN then Ival 0
                  else convert (kinds ! j2) (field_at (records f ! i) j2)) = Inr (b i))"
proof -
  from assms obtain df0 ids ids' ts ts' where
    rd: "read_csv fs p dtype_mapping = Inr df0"
    and g1: "getitem df0 ''ID'' = Inr ids"
    and a1: "astype_int (fillna (Ival 0) ids) = Inr ids'"
    and g2: "getitem (setitem df0 ''ID'' ids') ''is_type_strain_header'' = Inr ts"
    and a2: "astype_int (fillna (Ival 0) ts) = Inr ts'"
    and dr: "drop_column (setitem (setitem df0 ''ID'' ids') ''is_type_strain_header'' ts')
               ''strain_number_header'' = Inr df"
    unfolding load_and_clean_data_def bind_err_Inr Let_def by blast
  from read_csv_Inr [OF rd] obtain f kinds where
    f: "fs p = Inr f" and cols0: "columns df0 = header f"
    and rows0: "rows df0 = map (\<lambda>i. (i, map (\<lambda>j. convert (kinds ! j) (field_at (records f ! i) j))
                                  [0..<length (header f)])) [0..<length (records f)]"
    and lk: "length kinds = length (header f)"
    and kinds: "\<forall>j<length (header f). column_kind (map_of dtype_mapping (header f ! j))
                 (map (\<lambda>r. field_at r j) (records f)) = Inr (kinds ! j)"
    by blast
  define m where "m = length (header f)"
  define n where "n = length (records f)"
  define g where "g = (\<lambda>i. map (\<lambda>j. convert (kinds ! j) (field_at (records f ! i) j)) [0..<m])"
  have rows0': "rows df0 = map (\<lambda>i. (i, g i)) [0..<n]"
    using rows0 by (simp add: g_def m_def n_def)
  have lg: "length (g i) = m" for i
    by (simp add: g_def)
  have gc: "j < m \<Longrightarrow> cell_at (g i) j = convert (kinds ! j) (field_at (records f ! i) j)" for i j
    by (simp add: g_def cell_at_def)
  \<comment> \<open>the ID column\<close>
  from getitem_Inr [OF g1] obtain j1 where
    j1: "column_pos ''ID'' (header f) = Some j1"
    and ids: "ids = map (\<lambda>(l, r). (l, cell_at r j1)) (rows df0)"
    by (auto simp: cols0)
  have j1m: "j1 < m"
    using column_pos_Some [OF j1] by (simp add: m_def)
  have fill1: "fillna (Ival 0) ids =
      map (\<lambda>i. (i, if cell_at (g i) j1 = NaN then Ival 0 else cell_at (g i) j1)) [0..<n]"
    by (simp add: fillna_def ids rows0' comp_def)
  from astype_int_Inr [OF a1 [unfolded fill1]] obtain a where
    ids': "ids' = map (\<lambda>i. (i, a i)) [0..<n]"
    and a: "\<forall>i<n. to_int (if cell_at (g i) j1 = NaN then Ival 0 else cell_at (g i) j1) = Inr (a i)"
    by blast
  define df1 where "df1 = setitem df0 ''ID'' ids'"
  have df1: "df1 = df0\<lparr>rows := map (\<lambda>i. (i, (g i)[j1 := a i])) [0..<n]\<rparr>"
    unfolding df1_def ids'
    by (rule setitem_rows) (simp_all add: cols0 j1 rows0')
  \<comment> \<open>the type-strain column\<close>
  from getitem_Inr [OF g2 [folded df1_def]] obtain j2 where
    j2: "column_pos ''is_type_strain_header'' (header f) = Some j2"
    and ts: "ts = map (\<lambda>(l, r). (l, cell_at r j2)) (rows df1)"
    by (auto simp: df1 cols0)
  have j2m: "j2 < m"
    using column_pos_Some [OF j2] by (simp add: m_def)
  have neq: "j1 \<noteq> j2"
    using column_pos_Some [OF j1] column_pos_Some [OF j2] by auto
  have c2: "cell_at ((g i)[j1 := a i]) j2 = cell_at (g i) j2" for i
    using neq by (simp add: cell_at_def)
  have fill2: "fillna (Ival 0) ts =
      map (\<lambda>i. (i, if cell_at (g i) j2 = NaN then Ival 0 else cell_at (g i) j2)) [0..<n]"
    by (simp add: fillna_def ts df1 comp_def c2)
  from astype_int_Inr [OF a2 [unfolded fill2]] obtain b where
    ts': "ts' = map (\<lambda>i. (i, b i)) [0..<n]"
    and b: "\<forall>i<n. to_int (if cell_at (g i) j2 = NaN then Ival 0 else cell_at (g i) j2) = Inr (b i)"
    by blast
  define df2 where "df2 = setitem df1 ''is_type_strain_header'' ts'"
  have df2: "df2 = df1\<lparr>rows := map (\<lambda>i. (i, (g i)[j1 := a i, j2 := b i])) [0..<n]\<rparr>"
    unfolding df2_def ts'
    by (rule setitem_rows) (simp_all add: df1 cols0 j2)
  \<comment> \<open>the drop\<close>
  from dr have dr': "drop_column df2 ''strain_number_header'' = Inr df"
    by (simp add: df2_def df1_def)
  have cols2: "columns df2 = header f"
    by (simp add: df2 df1 cols0)
  from dr' have mem: "''strain_number_header'' \<in> set (header f)"
    by (auto simp: drop_column_def cols2 split: if_splits)
  from dr' mem have dfc: "columns df = filter (\<lambda>x. x \<noteq> ''strain_number_header'') (header f)"
    and dfr: "rows df = map (\<lambda>i. (i, map snd (filter (\<lambda>(x, v). x \<noteq> ''strain_number_header'')
                 (zip (header f) ((g i)[j1 := a i, j2 := b i]))))) [0..<n]"
    by (auto simp: drop_column_def cols2 df2 df1 cols0 comp_def split: if_splits)
  have a': "\<forall>i<n. to_int (if convert (kinds ! j1) (field_at (records f ! i) j1) = NaN then Ival 0
                  else convert (kinds ! j1) (field_at (records f ! i) j1)) = Inr (a i)"
    using a unfolding gc [OF j1m] .
  have b': "\<forall>i<n. to_int (if convert (kinds ! j2) (field_at (records f ! i) j2) = NaN then Ival 0
                  else convert (kinds ! j2) (field_at (records f ! i) j2)) = Inr (b i)"
    using b unfolding gc [OF j2m] .
  show ?thesis
    using f lk kinds j1 j2 mem dfc dfr a' b'
    unfolding g_def m_def n_def
    by blast
qed

lemma dtype_ID: "map_of dtype_mapping ''ID'' = Some Float64"
  by (simp add: dtype_mapping_def)

lemma dtype_type_strain: "map_of dtype_mapping ''is_type_strain_header'' = Some Float64"
  by (simp add: dtype_mapping_def)

lemma column_kind_Float64: "column_kind (Some Float64) col = Inr k \<longleftrightarrow> list_all floatable col \<and> k = AsFloat"
  by (auto simp: column_kind_def)

text \<open>
  C3. When the loader returns a table, the file was read, the table's columns are the
  header's without \<open>strain_number_header\<close>, it has one row per record, and in every
  row the \<open>ID\<close> cell and the type-strain cell are integers (so none is missing);
  where the field of the file was a missing value, the cell is the integer 0.
\<close>

theorem load_and_clean_data_clean:
  assumes "load_and_clean_data fs file_path = Inr df"
  shows "\<exists>f. fs file_path = Inr f
     \<and> columns df = filter (\<lambda>c. c \<noteq> ''strain_number_header'') (header f)
     \<and> length (rows df) = length (records f)
     \<and> (\<forall>i<length (records f).
           (\<exists>k. frame_cell df i ''ID'' = Ival k)
         \<and> (\<exists>k. frame_cell df i ''is_type_strain_header'' = Ival k)
         \<and> (is_na (csv_field f i ''ID'') \<longrightarrow> frame_cell df i ''ID'' = Ival 0)
         \<and> (is_na (csv_field f i ''is_type_strain_header'')
               \<longrightarrow> frame_cell df i ''is_type_strain_header'' = Ival 0))"
proof -
  from load_and_clean_data_Inr [OF assms] obtain f kinds j1 j2 a b where
    f: "fs file_path = Inr f"
    and lk: "length kinds = length (header f)"
    and kinds: "\<forall>j<length (header f). column_kind (map_of dtype_mapping (header f ! j))
                 (map (\<lambda>r. field_at r j) (records f)) = Inr (kinds ! j)"
    and j1: "column_pos ''ID'' (header f) = Some j1"
    and j2: "column_pos ''is_type_strain_header'' (header f) = Some j2"
    and dfc: "columns df = filter (\<lambda>x. x \<noteq> ''strain_number_header'') (header f)"
    and dfr: "rows df = map (\<lambda>i. (i, map snd (filter (\<lambda>(x, v). x \<noteq> ''strain_number_header'')
                 (zip (header f)
                    ((map (\<lambda>j. convert (kinds ! j) (field_at (records f ! i) j))
                        [0..<length (header f)])[j1 := a i, j2 := b i])))))
               [0..<length (records f)]"
    and a: "\<forall>i<length (records f).
          to_int (if convert (kinds ! j1) (field_at (records f ! i) j1) = NaN then Ival 0
                  else convert (kinds ! j1) (field_at (records f ! i) j1)) = Inr (a i)"
    and b: "\<forall>i<length (records f).
          to_int (if convert (kinds ! j2) (field_at (records f ! i) j2) = NaN then Ival 0
                  else convert (kinds ! j2) (field_at (records f ! i) j2)) = Inr (b i)"
    by blast
  define r where "r = (\<lambda>i. (map (\<lambda>j. convert (kinds ! j) (field_at (records f ! i) j))
                        [0..<length (header f)])[j1 := a i, j2 := b i])"
  have p1: "j1 < length (header f)" "header f ! j1 = ''ID''"
    using column_pos_Some [OF j1] by auto
  have p2: "j2 < length (header f)" "header f ! j2 = ''is_type_strain_header''"
    using column_pos_Some [OF j2] by auto
  have neq: "j1 \<noteq> j2"
    using p1 p2 by auto
  have k1: "kinds ! j1 = AsFloat"
  proof -
    have "column_kind (map_of dtype_mapping ''ID'') (map (\<lambda>r. field_at r j1) (records f))
            = Inr (kinds ! j1)"
      using kinds p1 by metis
    then show ?thesis
      by (simp add: dtype_ID column_kind_Float64)
  qed
  have k2: "kinds ! j2 = AsFloat"
  proof -
    have "column_kind (map_of dtype_mapping ''is_type_strain_header'')
            (map (\<lambda>r. field_at r j2) (records f)) = Inr (kinds ! j2)"
      using kinds p2 by metis
    then show ?thesis
      by (simp add: dtype_type_strain column_kind_Float64)
  qed
  have lr: "length (r i) = length (header f)" for i
    by (simp add: r_def)
  have r1: "cell_at (r i) j1 = a i" for i
    using p1 p2 neq by (simp add: r_def cell_at_def)
  have r2: "cell_at (r i) j2 = b i" for i
    using p1 p2 neq by (simp add: r_def cell_at_def)
  have cells: "frame_cell df i ''ID'' = a i \<and> frame_cell df i ''is_type_strain_header'' = b i"
    if i: "i < length (records f)" for i
  proof -
    have row: "snd (rows df ! i) =
        map snd (filter (\<lambda>(x, v). x \<noteq> ''strain_number_header'') (zip (header f) (r i)))"
      using i by (simp add: dfr r_def)
    from drop_cell [OF lr j1, of "''strain_number_header''" i] obtain j' where
      "column_pos ''ID'' (columns df) = Some j'"
      "cell_at (snd (rows df ! i)) j' = a i"
      by (auto simp: dfc row r1)
    moreover
    from drop_cell [OF lr j2, of "''strain_number_header''" i] obtain j'' where
      "column_pos ''is_type_strain_header'' (columns df) = Some j''"
      "cell_at (snd (rows df ! i)) j'' = b i"
      by (auto simp: dfc row r2)
    ultimately show ?thesis
      by (simp add: frame_cell_def)
  qed
  have ints: "(\<exists>k. a i = Ival k) \<and> (\<exists>k. b i = Ival k)" if "i < length (records f)" for i
    using a b that to_int_Ival by blast
  have na1: "a i = Ival 0" if "i < length (records f)" "is_na (csv_field f i ''ID'')" for i
    using a that by (auto simp: csv_field_def j1 k1)
  have na2: "b i = Ival 0"
    if "i < length (records f)" "is_na (csv_field f i ''is_type_strain_header'')" for i
    using b that by (auto simp: csv_field_def j2 k2)
  have len: "length (rows df) = length (records f)"
    by (simp add: dfr)
  show ?thesis
    using f dfc len cells ints na1 na2 by (intro exI [of _ f]) auto
qed

theorem load_and_clean_data_clean_witness:
  "load_and_clean_data ex_fs ''metabolites/prod.csv'' =
     Inr \<lparr>columns = [''ID'', ''species'', ''is_type_strain_header'', ''designation_header'',
                      ''metA'', ''metB''],
          rows = [(0, [Ival 1, Sval ''A'', Ival 1, Sval ''x'', Ival 2, Ival 0]),
                  (1, [Ival 0, Sval ''B'', Ival 0, Sval ''y'', Ival 0, Ival 3])]\<rparr>
   \<and> (\<exists>f. ex_fs ''metabolites/prod.csv'' = Inr f
        \<and> is_na (csv_field f 1 ''ID'') \<and> is_na (csv_field f 1 ''is_type_strain_header'')
        \<and> length (records f) = 2)"
proof -
  have l: "load_and_clean_data ex_fs ''metabolites/prod.csv'' =
     Inr \<lparr>columns = [''ID'', ''species'', ''is_type_strain_header'', ''designation_header'',
                      ''metA'', ''metB''],
          rows = [(0, [Ival 1, Sval ''A'', Ival 1, Sval ''x'', Ival 2, Ival 0]),
                  (1, [Ival 0, Sval ''B'', Ival 0, Sval ''y'', Ival 0, Ival 3])]\<rparr>"
    by code_simp
  have f: "ex_fs ''metabolites/prod.csv'' = Inr ex_file"
    by code_simp
  have na: "is_na (csv_field ex_file 1 ''ID'')" "is_na (csv_field ex_file 1 ''is_type_strain_header'')"
    "length (records ex_file) = 2"
    by code_simp+
  from load_and_clean_data_clean [OF l] l f na show ?thesis
    by blast
qed

text \<open>
  C8, as amended. The loader fails with the error of the file system when the file
  cannot be read, and it fails when the header lacks \<open>ID\<close>,
  \<open>is_type_strain_header\<close> or \<open>strain_number_header\<close>. (The columns
  \<open>species\<close> and \<open>designation_header\<close> are not required by the loader.)
\<close>

theorem load_and_clean_data_fails:
  "(\<forall>e. fs file_path = Inl e \<longrightarrow> load_and_clean_data fs file_path = Inl e)
   \<and> (\<forall>f. fs file_path = Inr f
          \<and> (''ID'' \<notin> set (header f)
              \<or> ''is_type_strain_header'' \<notin> set (header f)
              \<or> ''strain_number_header'' \<notin> set (header f))
        \<longrightarrow> (\<exists>e. load_and_clean_data fs file_path = Inl e))"
proof (intro conjI allI impI)
  fix e assume "fs file_path = Inl e"
  then show "load_and_clean_data fs file_path = Inl e"
    by (simp add: load_and_clean_data_def read_csv_def bind_err_def)
next
  fix f
  assume a: "fs file_path = Inr f
          \<and> (''ID'' \<notin> set (header f)
              \<or> ''is_type_strain_header'' \<notin> set (header f)
              \<or> ''strain_number_header'' \<notin> set (header f))"
  show "\<exists>e. load_and_clean_data fs file_path = Inl e"
  proof (cases "load_and_clean_data fs file_path")
    case (Inl e)
    then show ?thesis by blast
  next
    case (Inr df)
    from load_and_clean_data_Inr [OF Inr] a obtain j1 j2 where
      "column_pos ''ID'' (header f) = Some j1"
      "column_pos ''is_type_strain_header'' (header f) = Some j2"
      "''strain_number_header'' \<in> set (header f)"
      by auto
    then have "''ID'' \<in> set (header f)" "''is_type_strain_header'' \<in> set (header f)"
      "''strain_number_header'' \<in> set (header f)"
      using column_pos_None [of "''ID''" "header f"]
        column_pos_None [of "''is_type_strain_header''" "header f"]
      by auto
    with a show ?thesis by blast
  qed
qed

theorem load_and_clean_data_fails_witness:
  "ex_fs ''missing.csv'' = Inl FileNotFoundError
   \<and> load_and_clean_data ex_fs ''missing.csv'' = Inl FileNotFoundError
   \<and> ex_fs ''no_id.csv'' = Inr ex_file_no_id
   \<and> ''ID'' \<notin> set (header ex_file_no_id)
   \<and> load_and_clean_data ex_fs ''no_id.csv'' = Inl (KeyError ''ID'')
   \<and> (\<exists>e. load_and_clean_data ex_fs ''no_id.csv'' = Inl e)"
proof -
  have a: "ex_fs ''missing.csv'' = Inl FileNotFoundError"
    by code_simp
  have b: "ex_fs ''no_id.csv'' = Inr ex_file_no_id" "''ID'' \<notin> set (header ex_file_no_id)"
    by code_simp+
  have c: "load_and_clean_data ex_fs ''no_id.csv'' = Inl (KeyError ''ID'')"
    by code_simp
  from load_and_clean_data_fails [of ex_fs "''missing.csv''"]
    load_and_clean_data_fails [of ex_fs "''no_id.csv''"] a b c
  show ?thesis by blast
qed

text \<open>
  C8 as stated fails: a file without the \<open>species\<close> column, and one without the
  \<open>designation_header\<close> column, are loaded into a table. The dtype mapping names
  both columns, but \<^verbatim>\<open>read_csv\<close> ignores a dtype for a column the file does not
  have, and the loader reads neither column.
\<close>

theorem load_without_species_or_designation:
  "ex_fs ''no_species.csv'' = Inr ex_file_no_species
   \<and> ''species'' \<notin> set (header ex_file_no_species)
   \<and> load_and_clean_data ex_fs ''no_species.csv'' =
       Inr \<lparr>columns = [''ID'', ''is_type_strain_header'', ''designation_header'', ''metA''],
            rows = [(0, [Ival 1, Ival 1, Sval ''x'', Ival 2])]\<rparr>
   \<and> ex_fs ''no_designation.csv'' = Inr ex_file_no_designation
   \<and> ''designation_header'' \<notin> set (header ex_file_no_designation)
   \<and> load_and_clean_data ex_fs ''no_designation.csv'' =
       Inr \<lparr>columns = [''ID'', ''species'', ''is_type_strain_header'', ''metA'', ''metB''],
            rows = [(0, [Ival 1, Sval ''A'', Ival 1, Ival 2, Ival 0])]\<rparr>"
  by code_simp

section \<open>Facts about the statistics and the ranking\<close>

lemma those_None: "None \<in> set xs \<Longrightarrow> those xs = None"
  by (induction xs) (auto split: option.splits)

lemma those_map_Some: "those (map (\<lambda>x. Some (f x)) xs) = Some (map f xs)"
  by (induction xs) auto

lemma range_index_rows:
  assumes "range_index df"
  shows "rows df = map (\<lambda>i. (i, snd (rows df ! i))) [0..<length (rows df)]"
proof (rule nth_equalityI)
  show "length (rows df) = length (map (\<lambda>i. (i, snd (rows df ! i))) [0..<length (rows df)])"
    by simp
next
  fix i assume i: "i < length (rows df)"
  have "map fst (rows df) ! i = [0..<length (rows df)] ! i"
    using assms by (simp add: range_index_def index_of_def)
  with i have "fst (rows df ! i) = i"
    by simp
  with i show "rows df ! i = map (\<lambda>i. (i, snd (rows df ! i))) [0..<length (rows df)] ! i"
    by (simp add: prod_eq_iff)
qed

lemma check_bool_indexer_range:
  "check_bool_indexer [0..<n] (map (\<lambda>i. (i, h i)) [0..<np]) =
     (if n \<le> np then Inr (map h [0..<n]) else Inl IndexingError)"
proof -
  let ?key = "map (\<lambda>i. (i, h i)) [0..<np]"
  have fst: "map fst ?key = [0..<np]"
    by (simp add: comp_def)
  have snd: "map snd ?key = map h [0..<np]"
    by (simp add: comp_def)
  consider "n = np" | "n < np" | "np < n"
    by linarith
  then show ?thesis
  proof cases
    case 1
    then show ?thesis
      unfolding check_bool_indexer_def fst snd by simp
  next
    case 2
    then have ne: "[0..<np] \<noteq> [0..<n]"
      by (metis length_upt diff_zero nat_neq_iff)
    have eq: "map (map_of ?key) [0..<n] = map (\<lambda>l. Some (h l)) [0..<n]"
      using 2 by (intro map_cong refl) (simp add: map_of_tabulate)
    show ?thesis
      using 2 ne unfolding check_bool_indexer_def fst snd eq by (simp add: those_map_Some)
  next
    case 3
    then have ne: "[0..<np] \<noteq> [0..<n]"
      by (metis length_upt diff_zero nat_neq_iff)
    have "map_of ?key np = None"
      by (simp add: map_of_eq_None_iff image_iff)
    then have "None \<in> set (map (map_of ?key) [0..<n])"
      using 3 by (force simp: image_iff)
    then show ?thesis
      using 3 ne unfolding check_bool_indexer_def fst snd by (simp add: those_None)
  qed
qed

lemma mask_filter_tab:
  "map fst (filter snd (zip (map r xs) (map f xs))) = map r (filter f xs)"
  by (induction xs) auto

lemma getitem_bool_range:
  assumes "range_index df"
  shows "getitem_bool df (map (\<lambda>i. (i, h i)) [0..<np]) =
     (if length (rows df) \<le> np
      then Inr (df\<lparr>rows := map (\<lambda>i. (i, snd (rows df ! i))) (filter h [0..<length (rows df)])\<rparr>)
      else Inl IndexingError)"
proof -
  let ?n = "length (rows df)"
  have idx: "index_of df = [0..<?n]"
    using assms by (simp add: range_index_def)
  have "map fst (filter snd (zip (rows df) (map h [0..<?n]))) =
      map (\<lambda>i. (i, snd (rows df ! i))) (filter h [0..<?n])"
    by (subst range_index_rows [OF assms]) (simp only: mask_filter_tab)
  then show ?thesis
    by (simp add: getitem_bool_def idx check_bool_indexer_range)
qed

lemma sum_list_swap:
  "(\<Sum>x\<leftarrow>xs. \<Sum>y\<leftarrow>ys. (f x y :: rat)) = (\<Sum>y\<leftarrow>ys. \<Sum>x\<leftarrow>xs. f x y)"
  by (induction xs) (simp_all add: sum_list_addf)

lemma metabolite_columns_fst:
  "map fst (metabolite_columns df) = [4..<length (columns df)]"
  by (simp add: metabolite_columns_def drop_map [symmetric])

lemma series_sum_tab:
  "series_sum (map (\<lambda>(j, c). (c, S j)) mc) = (\<Sum>j\<leftarrow>map fst mc. S j)"
  by (simp add: series_sum_def comp_def case_prod_unfold)

lemma count_metabolites_sum:
  assumes "count_metabolites d = Inr s"
  shows "series_sum s =
    (\<Sum>(l, r)\<leftarrow>rows d. \<Sum>j\<leftarrow>[4..<length (columns d)]. value_of (cell_at r j))"
proof -
  from assms have "s = map (\<lambda>(j, c). (c, sum_list (map (\<lambda>(l, r). value_of (cell_at r j)) (rows d))))
                  (metabolite_columns d)"
    by (simp add: count_metabolites_def split: if_splits)
  then have "series_sum s =
      (\<Sum>j\<leftarrow>[4..<length (columns d)]. \<Sum>(l, r)\<leftarrow>rows d. value_of (cell_at r j))"
    by (simp only: series_sum_tab metabolite_columns_fst)
  also have "\<dots> = (\<Sum>(l, r)\<leftarrow>rows d. \<Sum>j\<leftarrow>[4..<length (columns d)]. value_of (cell_at r j))"
    by (simp add: case_prod_unfold sum_list_swap [of _ "rows d"])
  finally show ?thesis .
qed

lemma count_metabolites_numeric:
  assumes "numeric_metabolites df" "set (rows d) \<subseteq> set (rows df)" "columns d = columns df"
  shows "\<exists>s. count_metabolites d = Inr s"
proof -
  have "\<not> list_ex (\<lambda>(j, c). list_ex (\<lambda>(l, r). is_text (cell_at r j)) (rows d))
           (metabolite_columns d)"
  proof
    assume "list_ex (\<lambda>(j, c). list_ex (\<lambda>(l, r). is_text (cell_at r j)) (rows d))
           (metabolite_columns d)"
    then obtain j c l r where jc: "(j, c) \<in> set (metabolite_columns d)"
      and lr: "(l, r) \<in> set (rows d)" and t: "is_text (cell_at r j)"
      by (auto simp: list_ex_iff)
    from jc have "j \<in> set (map fst (metabolite_columns d))"
      by force
    then have "j \<in> set [4..<length (columns df)]"
      by (simp only: metabolite_columns_fst assms(3))
    moreover from lr assms(2) have "(l, r) \<in> set (rows df)"
      by blast
    ultimately have "\<not> is_text (cell_at r j)"
      using assms(1) by (auto simp: numeric_metabolites_def list_all_iff)
    with t show False by simp
  qed
  then show ?thesis
    by (simp add: count_metabolites_def)
qed

lemma masked_count_range:
  assumes rp: "range_index prod_df" and rd: "range_index df"
    and col: "column_pos ''is_type_strain_header'' (columns prod_df) = Some j"
    and mc: "masked_count df (series_eq (map (\<lambda>(l, r). (l, cell_at r j)) (rows prod_df)) p) = Inr x"
  shows "length (rows df) \<le> length (rows prod_df) \<and> x = positional_mask_total prod_df p df"
proof -
  let ?n = "length (rows df)"
  let ?np = "length (rows prod_df)"
  let ?h = "\<lambda>i. py_eq (flag_at prod_df i) p"
  have key: "series_eq (map (\<lambda>(l, r). (l, cell_at r j)) (rows prod_df)) p =
      map (\<lambda>i. (i, ?h i)) [0..<?np]"
    by (subst range_index_rows [OF rp])
      (simp add: series_eq_def comp_def flag_at_def frame_cell_def col)
  from mc obtain d s where d: "getitem_bool df (map (\<lambda>i. (i, ?h i)) [0..<?np]) = Inr d"
    and s: "count_metabolites d = Inr s" and x: "x = series_sum s"
    unfolding masked_count_def key bind_err_Inr by blast
  from d have le: "?n \<le> ?np"
    and d': "d = df\<lparr>rows := map (\<lambda>i. (i, snd (rows df ! i))) (filter ?h [0..<?n])\<rparr>"
    by (simp_all add: getitem_bool_range [OF rd] split: if_splits)
  have "x = (\<Sum>i\<leftarrow>filter ?h [0..<?n]. row_total df i)"
    unfolding x count_metabolites_sum [OF s]
    by (simp add: d' comp_def row_total_def)
  also have "\<dots> = positional_mask_total prod_df p df"
    by (simp add: positional_mask_total_def sum_list_map_filter')
  finally show ?thesis
    using le by simp
qed

lemma masked_count_longer:
  assumes rp: "range_index prod_df" and rd: "range_index df"
    and col: "column_pos ''is_type_strain_header'' (columns prod_df) = Some j"
    and len: "length (rows prod_df) < length (rows df)"
  shows "masked_count df (series_eq (map (\<lambda>(l, r). (l, cell_at r j)) (rows prod_df)) p)
           = Inl IndexingError"
proof -
  let ?h = "\<lambda>i. py_eq (flag_at prod_df i) p"
  have key: "series_eq (map (\<lambda>(l, r). (l, cell_at r j)) (rows prod_df)) p =
      map (\<lambda>i. (i, ?h i)) [0..<length (rows prod_df)]"
    by (subst range_index_rows [OF rp])
      (simp add: series_eq_def comp_def flag_at_def frame_cell_def col)
  show ?thesis
    using len unfolding masked_count_def key
    by (simp add: getitem_bool_range [OF rd] bind_err_def)
qed

lemma masked_count_numeric:
  assumes rp: "range_index prod_df" and rd: "range_index df"
    and col: "column_pos ''is_type_strain_header'' (columns prod_df) = Some j"
    and len: "length (rows df) \<le> length (rows prod_df)"
    and num: "numeric_metabolites df"
  shows "\<exists>x. masked_count df (series_eq (map (\<lambda>(l, r). (l, cell_at r j)) (rows prod_df)) p)
           = Inr x"
proof -
  let ?n = "length (rows df)"
  let ?h = "\<lambda>i. py_eq (flag_at prod_df i) p"
  let ?d = "df\<lparr>rows := map (\<lambda>i. (i, snd (rows df ! i))) (filter ?h [0..<?n])\<rparr>"
  have key: "series_eq (map (\<lambda>(l, r). (l, cell_at r j)) (rows prod_df)) p =
      map (\<lambda>i. (i, ?h i)) [0..<length (rows prod_df)]"
    by (subst range_index_rows [OF rp])
      (simp add: series_eq_def comp_def flag_at_def frame_cell_def col)
  have "set (map (\<lambda>i. (i, snd (rows df ! i))) (filter ?h [0..<?n]))
          \<subseteq> set (map (\<lambda>i. (i, snd (rows df ! i))) [0..<?n])"
    by auto
  then have sub: "set (rows ?d) \<subseteq> set (rows df)"
    using range_index_rows [OF rd] by simp
  from count_metabolites_numeric [OF num sub] obtain s where "count_metabolites ?d = Inr s"
    by auto
  then show ?thesis
    using len unfolding masked_count_def key
    by (simp add: getitem_bool_range [OF rd] bind_err_def)
qed

lemma series_eq_getitem:
  "series_eq (map (\<lambda>(l, r). (l, cell_at r j)) rs) p = map (\<lambda>(l, r). (l, py_eq (cell_at r j) p)) rs"
  by (simp add: series_eq_def comp_def case_prod_unfold)

lemma partition_statistics_Inr:
  assumes "partition_statistics prod_df util_df anti_df p = Inr (ns, a, b, c)"
  shows "\<exists>j. column_pos ''is_type_strain_header'' (columns prod_df) = Some j
     \<and> ns = length (partition_species prod_df p)
     \<and> masked_count prod_df (series_eq (map (\<lambda>(l, r). (l, cell_at r j)) (rows prod_df)) p) = Inr a
     \<and> masked_count util_df (series_eq (map (\<lambda>(l, r). (l, cell_at r j)) (rows prod_df)) p) = Inr b
     \<and> masked_count anti_df (series_eq (map (\<lambda>(l, r). (l, cell_at r j)) (rows prod_df)) p) = Inr c"
proof -
  from assms obtain ts d sp where
    ts: "getitem prod_df ''is_type_strain_header'' = Inr ts"
    and d: "getitem_bool prod_df (series_eq ts p) = Inr d"
    and sp: "getitem d ''species'' = Inr sp"
    and ns: "ns = length (unique (map snd sp))"
    and a: "masked_count prod_df (series_eq ts p) = Inr a"
    and b: "masked_count util_df (series_eq ts p) = Inr b"
    and c: "masked_count anti_df (series_eq ts p) = Inr c"
    unfolding partition_statistics_def bind_err_Inr Let_def by blast
  from getitem_Inr [OF ts] obtain j where
    j: "column_pos ''is_type_strain_header'' (columns prod_df) = Some j"
    and ts': "ts = map (\<lambda>(l, r). (l, cell_at r j)) (rows prod_df)"
    by blast
  have d': "d = prod_df\<lparr>rows := filter (\<lambda>(l, r). py_eq (cell_at r j) p) (rows prod_df)\<rparr>"
    using d getitem_bool_own [of prod_df "\<lambda>l r. py_eq (cell_at r j) p"]
    by (simp add: ts' series_eq_getitem)
  from getitem_Inr [OF sp] obtain js where
    js: "column_pos ''species'' (columns prod_df) = Some js"
    and sp': "sp = map (\<lambda>(l, r). (l, cell_at r js)) (rows d)"
    by (auto simp: d')
  have "map snd sp = map (\<lambda>(l, r). cell_at r js)
          (filter (\<lambda>(l, r). py_eq (frame_flag prod_df r) p) (rows prod_df))"
    by (simp add: sp' d' comp_def case_prod_unfold frame_flag_def j)
  then have "ns = length (partition_species prod_df p)"
    by (simp add: ns partition_species_def js)
  with j a b c show ?thesis
    unfolding ts' by blast
qed

lemma compute_statistics_Inr:
  assumes "compute_statistics prod_df util_df anti_df = Inr stats"
  shows "\<exists>n1 a1 b1 c1 n0 a0 b0 c0.
      partition_statistics prod_df util_df anti_df (Ival 1) = Inr (n1, a1, b1, c1)
    \<and> partition_statistics prod_df util_df anti_df (Ival 0) = Inr (n0, a0, b0, c0)
    \<and> stats =
       [\<lparr>category = ''Type Strain'', species_count = n1, prod_metabolites = a1,
          util_metabolites = b1, anti_metabolites = c1\<rparr>,
        \<lparr>category = ''Non-Type Strain'', species_count = n0, prod_metabolites = a0,
          util_metabolites = b0, anti_metabolites = c0\<rparr>,
        \<lparr>category = ''Total'', species_count = n1 + n0, prod_metabolites = a1 + a0,
          util_metabolites = b1 + b0, anti_metabolites = c1 + c0\<rparr>]"
proof -
  from assms obtain r1 r0 where
    r1: "partition_statistics prod_df util_df anti_df (Ival 1) = Inr r1"
    and r0: "partition_statistics prod_df util_df anti_df (Ival 0) = Inr r0"
    by (auto simp: compute_statistics_def bind_err_Inr case_prod_unfold)
  obtain n1 a1 b1 c1 where e1: "r1 = (n1, a1, b1, c1)"
    by (cases r1) auto
  obtain n0 a0 b0 c0 where e0: "r0 = (n0, a0, b0, c0)"
    by (cases r0) auto
  from assms r1 r0 show ?thesis
    by (simp add: compute_statistics_def bind_err_def e1 e0 eq_commute)
qed

lemma partition_statistics_numeric:
  assumes rp: "range_index prod_df" and ru: "range_index util_df" and ra: "range_index anti_df"
    and col: "column_pos ''is_type_strain_header'' (columns prod_df) = Some j"
    and sp: "column_pos ''species'' (columns prod_df) = Some js"
    and np: "numeric_metabolites prod_df" and nu: "numeric_metabolites util_df"
    and na: "numeric_metabolites anti_df"
    and lu: "length (rows util_df) \<le> length (rows prod_df)"
    and la: "length (rows anti_df) \<le> length (rows prod_df)"
  shows "\<exists>r. partition_statistics prod_df util_df anti_df p = Inr r"
proof -
  let ?key = "series_eq (map (\<lambda>(l, r). (l, cell_at r j)) (rows prod_df)) p"
  from masked_count_numeric [OF rp rp col order_refl np] obtain a where
    a: "masked_count prod_df ?key = Inr a" by blast
  from masked_count_numeric [OF rp ru col lu nu] obtain b where
    b: "masked_count util_df ?key = Inr b" by blast
  from masked_count_numeric [OF rp ra col la na] obtain c where
    c: "masked_count anti_df ?key = Inr c" by blast
  have ts: "getitem prod_df ''is_type_strain_header'' =
      Inr (map (\<lambda>(l, r). (l, cell_at r j)) (rows prod_df))"
    by (simp add: getitem_def col)
  have d: "getitem_bool prod_df ?key =
      Inr (prod_df\<lparr>rows := filter (\<lambda>(l, r). py_eq (cell_at r j) p) (rows prod_df)\<rparr>)"
    using getitem_bool_own [of prod_df "\<lambda>l r. py_eq (cell_at r j) p"]
    by (simp add: series_eq_getitem)
  show ?thesis
    unfolding partition_statistics_def ts
    by (simp add: bind_err_def Let_def d a b c getitem_def sp)
qed

lemma load_and_clean_data_range_index:
  assumes "load_and_clean_data fs file_path = Inr df"
  shows "range_index df"
proof -
  have t: "range_index d" if "rows d = map (\<lambda>i. (i, g i)) [0..<n]" for d g n
    using that by (simp add: range_index_def index_of_def comp_def)
  from load_and_clean_data_Inr [OF assms] show ?thesis
    by (elim exE conjE) (erule t)
qed

text \<open>
  C1. For tables labelled as the loader labels them: when the statistics are computed,
  the Util and Anti sums of the Type Strain row (\<open>p = 1\<close>) and of the Non-Type Strain
  row (\<open>p = 0\<close>) add the metabolite cells of exactly those rows of the utilization
  (antimicrobial) table at whose position the production table's type-strain cell equals
  \<open>p\<close>; the table's own type-strain column plays no part.
\<close>

theorem compute_statistics_prod_mask:
  assumes "range_index prod_df" and "range_index util_df" and "range_index anti_df"
    and "compute_statistics prod_df util_df anti_df = Inr stats"
  shows "\<exists>ts nts tot. stats = [ts, nts, tot]
     \<and> util_metabolites ts = positional_mask_total prod_df (Ival 1) util_df
     \<and> anti_metabolites ts = positional_mask_total prod_df (Ival 1) anti_df
     \<and> util_metabolites nts = positional_mask_total prod_df (Ival 0) util_df
     \<and> anti_metabolites nts = positional_mask_total prod_df (Ival 0) anti_df"
proof -
  from compute_statistics_Inr [OF assms(4)] obtain n1 a1 b1 c1 n0 a0 b0 c0 where
    p1: "partition_statistics prod_df util_df anti_df (Ival 1) = Inr (n1, a1, b1, c1)"
    and p0: "partition_statistics prod_df util_df anti_df (Ival 0) = Inr (n0, a0, b0, c0)"
    and stats: "stats =
       [\<lparr>category = ''Type Strain'', species_count = n1, prod_metabolites = a1,
          util_metabolites = b1, anti_metabolites = c1\<rparr>,
        \<lparr>category = ''Non-Type Strain'', species_count = n0, prod_metabolites = a0,
          util_metabolites = b0, anti_metabolites = c0\<rparr>,
        \<lparr>category = ''Total'', species_count = n1 + n0, prod_metabolites = a1 + a0,
          util_metabolites = b1 + b0, anti_metabolites = c1 + c0\<rparr>]"
    by blast
  from partition_statistics_Inr [OF p1] obtain j where
    j: "column_pos ''is_type_strain_header'' (columns prod_df) = Some j"
    and u1: "masked_count util_df
               (series_eq (map (\<lambda>(l, r). (l, cell_at r j)) (rows prod_df)) (Ival 1)) = Inr b1"
    and v1: "masked_count anti_df
               (series_eq (map (\<lambda>(l, r). (l, cell_at r j)) (rows prod_df)) (Ival 1)) = Inr c1"
    by blast
  from partition_statistics_Inr [OF p0] j have
    u0: "masked_count util_df
               (series_eq (map (\<lambda>(l, r). (l, cell_at r j)) (rows prod_df)) (Ival 0)) = Inr b0"
    and v0: "masked_count anti_df
               (series_eq (map (\<lambda>(l, r). (l, cell_at r j)) (rows prod_df)) (Ival 0)) = Inr c0"
    by auto
  have "b1 = positional_mask_total prod_df (Ival 1) util_df"
    "c1 = positional_mask_total prod_df (Ival 1) anti_df"
    "b0 = positional_mask_total prod_df (Ival 0) util_df"
    "c0 = positional_mask_total prod_df (Ival 0) anti_df"
    using masked_count_range [OF assms(1) assms(2) j u1]
      masked_count_range [OF assms(1) assms(3) j v1]
      masked_count_range [OF assms(1) assms(2) j u0]
      masked_count_range [OF assms(1) assms(3) j v0]
    by simp_all
  then show ?thesis
    by (simp add: stats)
qed

lemma ex_range_index: "range_index ex_prod" "range_index ex_util" "range_index ex_anti"
  "range_index ex_util_short" "range_index ex_util_long"
  by code_simp+

lemma ex_compute_statistics: "compute_statistics ex_prod ex_util ex_anti = Inr ex_stats"
  by code_simp

theorem compute_statistics_prod_mask_witness:
  "range_index ex_prod \<and> range_index ex_util \<and> range_index ex_anti
   \<and> compute_statistics ex_prod ex_util ex_anti = Inr ex_stats
   \<and> util_metabolites (ex_stats ! 0) = positional_mask_total ex_prod (Ival 1) ex_util
   \<and> positional_mask_total ex_prod (Ival 1) ex_util = 16
   \<and> positional_mask_total ex_util (Ival 1) ex_util = 11
   \<and> anti_metabolites (ex_stats ! 0) = positional_mask_total ex_prod (Ival 1) ex_anti
   \<and> positional_mask_total ex_prod (Ival 1) ex_anti = 3
   \<and> positional_mask_total ex_anti (Ival 1) ex_anti = 2
   \<and> util_metabolites (ex_stats ! 1) = positional_mask_total ex_prod (Ival 0) ex_util
   \<and> anti_metabolites (ex_stats ! 1) = positional_mask_total ex_prod (Ival 0) ex_anti"
proof -
  have v: "positional_mask_total ex_prod (Ival 1) ex_util = 16"
    "positional_mask_total ex_util (Ival 1) ex_util = 11"
    "positional_mask_total ex_prod (Ival 1) ex_anti = 3"
    "positional_mask_total ex_anti (Ival 1) ex_anti = 2"
    by code_simp+
  from compute_statistics_prod_mask [OF ex_range_index(1,2,3) ex_compute_statistics]
  obtain ts nts tot where e: "ex_stats = [ts, nts, tot]"
    and m: "util_metabolites ts = positional_mask_total ex_prod (Ival 1) ex_util"
    "anti_metabolites ts = positional_mask_total ex_prod (Ival 1) ex_anti"
    "util_metabolites nts = positional_mask_total ex_prod (Ival 0) ex_util"
    "anti_metabolites nts = positional_mask_total ex_prod (Ival 0) ex_anti"
    by blast
  have "ex_stats ! 0 = ts" "ex_stats ! 1 = nts"
    unfolding e by simp_all
  with m v ex_range_index ex_compute_statistics show ?thesis
    by simp
qed

text \<open>
  C2. The statistics are three rows, Type Strain, Non-Type Strain and Total. The
  species count of a partition row is the number of distinct species among the rows of
  the production table in that partition, and every number of the Total row, the species
  count included, is the sum of the two numbers above it: a species that occurs in both
  partitions is counted twice.
\<close>

theorem compute_statistics_total_row:
  assumes "compute_statistics prod_df util_df anti_df = Inr stats"
  shows "\<exists>ts nts tot. stats = [ts, nts, tot]
     \<and> category ts = ''Type Strain'' \<and> category nts = ''Non-Type Strain''
     \<and> category tot = ''Total''
     \<and> species_count ts = length (partition_species prod_df (Ival 1))
     \<and> species_count nts = length (partition_species prod_df (Ival 0))
     \<and> species_count tot = species_count ts + species_count nts
     \<and> prod_metabolites tot = prod_metabolites ts + prod_metabolites nts
     \<and> util_metabolites tot = util_metabolites ts + util_metabolites nts
     \<and> anti_metabolites tot = anti_metabolites ts + anti_metabolites nts"
proof -
  from compute_statistics_Inr [OF assms] obtain n1 a1 b1 c1 n0 a0 b0 c0 where
    p1: "partition_statistics prod_df util_df anti_df (Ival 1) = Inr (n1, a1, b1, c1)"
    and p0: "partition_statistics prod_df util_df anti_df (Ival 0) = Inr (n0, a0, b0, c0)"
    and stats: "stats =
       [\<lparr>category = ''Type Strain'', species_count = n1, prod_metabolites = a1,
          util_metabolites = b1, anti_metabolites = c1\<rparr>,
        \<lparr>category = ''Non-Type Strain'', species_count = n0, prod_metabolites = a0,
          util_metabolites = b0, anti_metabolites = c0\<rparr>,
        \<lparr>category = ''Total'', species_count = n1 + n0, prod_metabolites = a1 + a0,
          util_metabolites = b1 + b0, anti_metabolites = c1 + c0\<rparr>]"
    by blast
  have "n1 = length (partition_species prod_df (Ival 1))"
    using partition_statistics_Inr [OF p1] by blast
  moreover have "n0 = length (partition_species prod_df (Ival 0))"
    using partition_statistics_Inr [OF p0] by blast
  ultimately show ?thesis
    by (simp add: stats)
qed

theorem compute_statistics_total_row_witness:
  "compute_statistics ex_prod ex_util ex_anti = Inr ex_stats
   \<and> partition_species ex_prod (Ival 1) = [Sval ''Bacillus'', Sval ''Vibrio'']
   \<and> partition_species ex_prod (Ival 0) = [Sval ''Bacillus'']
   \<and> species_count (ex_stats ! 2) = 3
   \<and> species_count (ex_stats ! 2) = species_count (ex_stats ! 0) + species_count (ex_stats ! 1)
   \<and> unique (map (\<lambda>(l, r). cell_at r 1) (rows ex_prod)) = [Sval ''Bacillus'', Sval ''Vibrio'']"
proof -
  have v: "partition_species ex_prod (Ival 1) = [Sval ''Bacillus'', Sval ''Vibrio'']"
    "partition_species ex_prod (Ival 0) = [Sval ''Bacillus'']"
    "unique (map (\<lambda>(l, r). cell_at r 1) (rows ex_prod)) = [Sval ''Bacillus'', Sval ''Vibrio'']"
    "species_count (ex_stats ! 2) = 3"
    by code_simp+
  from compute_statistics_total_row [OF ex_compute_statistics]
  obtain ts nts tot where e: "ex_stats = [ts, nts, tot]"
    and t: "species_count tot = species_count ts + species_count nts"
    by blast
  have "ex_stats ! 0 = ts" "ex_stats ! 1 = nts" "ex_stats ! 2 = tot"
    unfolding e by simp_all
  with t v ex_compute_statistics show ?thesis
    by simp
qed

lemma partition_statistics_longer:
  assumes rp: "range_index prod_df" and ru: "range_index util_df" and ra: "range_index anti_df"
    and col: "column_pos ''is_type_strain_header'' (columns prod_df) = Some j"
    and sp: "column_pos ''species'' (columns prod_df) = Some js"
    and np: "numeric_metabolites prod_df" and nu: "numeric_metabolites util_df"
    and len: "length (rows prod_df) < length (rows util_df)
              \<or> length (rows prod_df) < length (rows anti_df)"
  shows "partition_statistics prod_df util_df anti_df p = Inl IndexingError"
proof -
  let ?key = "series_eq (map (\<lambda>(l, r). (l, cell_at r j)) (rows prod_df)) p"
  from masked_count_numeric [OF rp rp col order_refl np] obtain a where
    a: "masked_count prod_df ?key = Inr a" by blast
  have ts: "getitem prod_df ''is_type_strain_header'' =
      Inr (map (\<lambda>(l, r). (l, cell_at r j)) (rows prod_df))"
    by (simp add: getitem_def col)
  have d: "getitem_bool prod_df ?key =
      Inr (prod_df\<lparr>rows := filter (\<lambda>(l, r). py_eq (cell_at r j) p) (rows prod_df)\<rparr>)"
    using getitem_bool_own [of prod_df "\<lambda>l r. py_eq (cell_at r j) p"]
    by (simp add: series_eq_getitem)
  show ?thesis
  proof (cases "length (rows prod_df) < length (rows util_df)")
    case True
    from masked_count_longer [OF rp ru col True]
    have "masked_count util_df ?key = Inl IndexingError" .
    then show ?thesis
      unfolding partition_statistics_def ts
      by (simp add: bind_err_def Let_def d a getitem_def sp)
  next
    case False
    then have le: "length (rows util_df) \<le> length (rows prod_df)"
      and lt: "length (rows prod_df) < length (rows anti_df)"
      using len by auto
    from masked_count_numeric [OF rp ru col le nu] obtain b where
      b: "masked_count util_df ?key = Inr b" by blast
    from masked_count_longer [OF rp ra col lt]
    have "masked_count anti_df ?key = Inl IndexingError" .
    then show ?thesis
      unfolding partition_statistics_def ts
      by (simp add: bind_err_def Let_def d a b getitem_def sp)
  qed
qed

lemma bind_err_Inl: "bind_err m f = Inl e \<longleftrightarrow> m = Inl e \<or> (\<exists>x. m = Inr x \<and> f x = Inl e)"
  by (cases m) (auto simp: bind_err_def)

lemma count_metabolites_error: "count_metabolites d = Inl e \<Longrightarrow> e = TypeError"
  by (auto simp: count_metabolites_def split: if_splits)

lemma masked_count_error:
  assumes rp: "range_index prod_df" and rd: "range_index df"
    and col: "column_pos ''is_type_strain_header'' (columns prod_df) = Some j"
    and len: "length (rows df) \<le> length (rows prod_df)"
    and e: "masked_count df (series_eq (map (\<lambda>(l, r). (l, cell_at r j)) (rows prod_df)) p) = Inl e"
  shows "e = TypeError"
proof -
  let ?h = "\<lambda>i. py_eq (flag_at prod_df i) p"
  have key: "series_eq (map (\<lambda>(l, r). (l, cell_at r j)) (rows prod_df)) p =
      map (\<lambda>i. (i, ?h i)) [0..<length (rows prod_df)]"
    by (subst range_index_rows [OF rp])
      (simp add: series_eq_def comp_def flag_at_def frame_cell_def col)
  from e len show ?thesis
    unfolding masked_count_def key
    by (auto simp: getitem_bool_range [OF rd] bind_err_Inl dest: count_metabolites_error)
qed

lemma partition_statistics_error:
  assumes rp: "range_index prod_df" and ru: "range_index util_df" and ra: "range_index anti_df"
    and lu: "length (rows util_df) \<le> length (rows prod_df)"
    and la: "length (rows anti_df) \<le> length (rows prod_df)"
    and e: "partition_statistics prod_df util_df anti_df p = Inl e"
  shows "e \<noteq> IndexingError"
proof (cases "column_pos ''is_type_strain_header'' (columns prod_df)")
  case None
  with e show ?thesis
    by (auto simp: partition_statistics_def getitem_def bind_err_def)
next
  case (Some j)
  let ?key = "series_eq (map (\<lambda>(l, r). (l, cell_at r j)) (rows prod_df)) p"
  have ts: "getitem prod_df ''is_type_strain_header'' =
      Inr (map (\<lambda>(l, r). (l, cell_at r j)) (rows prod_df))"
    by (simp add: getitem_def Some)
  have d: "getitem_bool prod_df ?key =
      Inr (prod_df\<lparr>rows := filter (\<lambda>(l, r). py_eq (cell_at r j) p) (rows prod_df)\<rparr>)"
    using getitem_bool_own [of prod_df "\<lambda>l r. py_eq (cell_at r j) p"]
    by (simp add: series_eq_getitem)
  show ?thesis
  proof (cases "column_pos ''species'' (columns prod_df)")
    case None
    with e show ?thesis
      unfolding partition_statistics_def ts
      by (auto simp: bind_err_def Let_def d getitem_def)
  next
    case (Some js)
    from e have "masked_count prod_df ?key = Inl e \<or> masked_count util_df ?key = Inl e
        \<or> masked_count anti_df ?key = Inl e"
      unfolding partition_statistics_def ts
      by (auto simp: bind_err_Inl Let_def d getitem_def Some)
    then have "e = TypeError"
      using masked_count_error [OF rp rp \<open>column_pos ''is_type_strain_header'' (columns prod_df) = Some j\<close> order_refl]
        masked_count_error [OF rp ru \<open>column_pos ''is_type_strain_header'' (columns prod_df) = Some j\<close> lu]
        masked_count_error [OF rp ra \<open>column_pos ''is_type_strain_header'' (columns prod_df) = Some j\<close> la]
      by blast
    then show ?thesis by simp
  qed
qed

lemma compute_statistics_error:
  assumes rp: "range_index prod_df" and ru: "range_index util_df" and ra: "range_index anti_df"
    and lu: "length (rows util_df) \<le> length (rows prod_df)"
    and la: "length (rows anti_df) \<le> length (rows prod_df)"
  shows "compute_statistics prod_df util_df anti_df \<noteq> Inl IndexingError"
proof
  assume "compute_statistics prod_df util_df anti_df = Inl IndexingError"
  then have "partition_statistics prod_df util_df anti_df (Ival 1) = Inl IndexingError
      \<or> partition_statistics prod_df util_df anti_df (Ival 0) = Inl IndexingError"
    by (auto simp: compute_statistics_def bind_err_Inl case_prod_unfold Let_def)
  then show False
    using partition_statistics_error [OF rp ru ra lu la] by blast
qed

lemma partition_statistics_sums:
  assumes rp: "range_index prod_df" and ru: "range_index util_df" and ra: "range_index anti_df"
    and ps: "partition_statistics prod_df util_df anti_df p = Inr (n, a, b, c)"
  shows "b = positional_mask_total prod_df p util_df \<and> c = positional_mask_total prod_df p anti_df"
proof -
  from partition_statistics_Inr [OF ps] obtain j where
    j: "column_pos ''is_type_strain_header'' (columns prod_df) = Some j"
    and u: "masked_count util_df
               (series_eq (map (\<lambda>(l, r). (l, cell_at r j)) (rows prod_df)) p) = Inr b"
    and v: "masked_count anti_df
               (series_eq (map (\<lambda>(l, r). (l, cell_at r j)) (rows prod_df)) p) = Inr c"
    by blast
  from masked_count_range [OF rp ru j u] masked_count_range [OF rp ra j v]
  show ?thesis by simp
qed

text \<open>
  C9, as amended. For tables labelled as the loader labels them:
  \<^item> when the utilization or the antimicrobial table has more rows than the production
    table, the statistics fail, whatever the other table's row count is; with the
    production table's type-strain and species columns present and numbers in the
    metabolite cells of the production and the utilization table, the error is the
    \<open>IndexingError\<close> of the boolean row selection;
  \<^item> when neither has more rows than the production table, the statistics never fail
    with \<open>IndexingError\<close>: fewer rows are no error. With the two columns present and
    numbers in the metabolite cells of the three tables, the statistics are returned, and
    the rows of a shorter table are selected by the first entries of the production
    table's mask.
\<close>

theorem compute_statistics_row_counts:
  assumes rp: "range_index prod_df" and ru: "range_index util_df" and ra: "range_index anti_df"
  shows "(length (rows prod_df) < length (rows util_df)
            \<or> length (rows prod_df) < length (rows anti_df)
          \<longrightarrow> (\<exists>e. compute_statistics prod_df util_df anti_df = Inl e))
     \<and> ((length (rows prod_df) < length (rows util_df)
            \<or> length (rows prod_df) < length (rows anti_df))
          \<and> column_pos ''is_type_strain_header'' (columns prod_df) \<noteq> None
          \<and> column_pos ''species'' (columns prod_df) \<noteq> None
          \<and> numeric_metabolites prod_df \<and> numeric_metabolites util_df
          \<longrightarrow> compute_statistics prod_df util_df anti_df = Inl IndexingError)
     \<and> (length (rows util_df) \<le> length (rows prod_df)
          \<and> length (rows anti_df) \<le> length (rows prod_df)
          \<longrightarrow> compute_statistics prod_df util_df anti_df \<noteq> Inl IndexingError)
     \<and> (length (rows util_df) \<le> length (rows prod_df)
          \<and> length (rows anti_df) \<le> length (rows prod_df)
          \<and> column_pos ''is_type_strain_header'' (columns prod_df) \<noteq> None
          \<and> column_pos ''species'' (columns prod_df) \<noteq> None
          \<and> numeric_metabolites prod_df \<and> numeric_metabolites util_df
          \<and> numeric_metabolites anti_df
          \<longrightarrow> (\<exists>ts nts tot. compute_statistics prod_df util_df anti_df = Inr [ts, nts, tot]
                \<and> util_metabolites ts = positional_mask_total prod_df (Ival 1) util_df
                \<and> anti_metabolites ts = positional_mask_total prod_df (Ival 1) anti_df
                \<and> util_metabolites nts = positional_mask_total prod_df (Ival 0) util_df
                \<and> anti_metabolites nts = positional_mask_total prod_df (Ival 0) anti_df))"
proof (intro conjI impI)
  assume len: "length (rows prod_df) < length (rows util_df)
            \<or> length (rows prod_df) < length (rows anti_df)"
  show "\<exists>e. compute_statistics prod_df util_df anti_df = Inl e"
  proof (cases "compute_statistics prod_df util_df anti_df")
    case (Inl e)
    then show ?thesis by blast
  next
    case (Inr stats)
    from compute_statistics_Inr [OF Inr] obtain n1 a1 b1 c1 where
      "partition_statistics prod_df util_df anti_df (Ival 1) = Inr (n1, a1, b1, c1)"
      by blast
    from partition_statistics_Inr [OF this] obtain j where
      j: "column_pos ''is_type_strain_header'' (columns prod_df) = Some j"
      and u: "masked_count util_df
               (series_eq (map (\<lambda>(l, r). (l, cell_at r j)) (rows prod_df)) (Ival 1)) = Inr b1"
      and v: "masked_count anti_df
               (series_eq (map (\<lambda>(l, r). (l, cell_at r j)) (rows prod_df)) (Ival 1)) = Inr c1"
      by blast
    from masked_count_range [OF rp ru j u] masked_count_range [OF rp ra j v] len
    show ?thesis by simp
  qed
next
  assume a: "(length (rows prod_df) < length (rows util_df)
            \<or> length (rows prod_df) < length (rows anti_df))
          \<and> column_pos ''is_type_strain_header'' (columns prod_df) \<noteq> None
          \<and> column_pos ''species'' (columns prod_df) \<noteq> None
          \<and> numeric_metabolites prod_df \<and> numeric_metabolites util_df"
  then obtain j js where "column_pos ''is_type_strain_header'' (columns prod_df) = Some j"
    "column_pos ''species'' (columns prod_df) = Some js"
    by auto
  from partition_statistics_longer [OF rp ru ra this, of "Ival 1"] a
  show "compute_statistics prod_df util_df anti_df = Inl IndexingError"
    by (simp add: compute_statistics_def bind_err_def)
next
  assume "length (rows util_df) \<le> length (rows prod_df)
          \<and> length (rows anti_df) \<le> length (rows prod_df)"
  then show "compute_statistics prod_df util_df anti_df \<noteq> Inl IndexingError"
    using compute_statistics_error [OF rp ru ra] by blast
next
  assume a: "length (rows util_df) \<le> length (rows prod_df)
          \<and> length (rows anti_df) \<le> length (rows prod_df)
          \<and> column_pos ''is_type_strain_header'' (columns prod_df) \<noteq> None
          \<and> column_pos ''species'' (columns prod_df) \<noteq> None
          \<and> numeric_metabolites prod_df \<and> numeric_metabolites util_df
          \<and> numeric_metabolites anti_df"
  then obtain j js where c: "column_pos ''is_type_strain_header'' (columns prod_df) = Some j"
    "column_pos ''species'' (columns prod_df) = Some js"
    by auto
  from a have n: "numeric_metabolites prod_df" "numeric_metabolites util_df"
    "numeric_metabolites anti_df" "length (rows util_df) \<le> length (rows prod_df)"
    "length (rows anti_df) \<le> length (rows prod_df)"
    by simp_all
  from partition_statistics_numeric [OF rp ru ra c n, of "Ival 1"] obtain n1 a1 b1 c1 where
    r1: "partition_statistics prod_df util_df anti_df (Ival 1) = Inr (n1, a1, b1, c1)"
    by (metis prod_cases4)
  from partition_statistics_numeric [OF rp ru ra c n, of "Ival 0"] obtain n0 a0 b0 c0 where
    r0: "partition_statistics prod_df util_df anti_df (Ival 0) = Inr (n0, a0, b0, c0)"
    by (metis prod_cases4)
  have cs: "compute_statistics prod_df util_df anti_df = Inr
       [\<lparr>category = ''Type Strain'', species_count = n1, prod_metabolites = a1,
          util_metabolites = b1, anti_metabolites = c1\<rparr>,
        \<lparr>category = ''Non-Type Strain'', species_count = n0, prod_metabolites = a0,
          util_metabolites = b0, anti_metabolites = c0\<rparr>,
        \<lparr>category = ''Total'', species_count = n1 + n0, prod_metabolites = a1 + a0,
          util_metabolites = b1 + b0, anti_metabolites = c1 + c0\<rparr>]"
    by (simp add: compute_statistics_def bind_err_def r1 r0)
  from partition_statistics_sums [OF rp ru ra r1] partition_statistics_sums [OF rp ru ra r0]
  show "\<exists>ts nts tot. compute_statistics prod_df util_df anti_df = Inr [ts, nts, tot]
                \<and> util_metabolites ts = positional_mask_total prod_df (Ival 1) util_df
                \<and> anti_metabolites ts = positional_mask_total prod_df (Ival 1) anti_df
                \<and> util_metabolites nts = positional_mask_total prod_df (Ival 0) util_df
                \<and> anti_metabolites nts = positional_mask_total prod_df (Ival 0) anti_df"
    unfolding cs by simp
qed

lemma ex_anti_long_range: "range_index ex_anti_long"
  by code_simp

theorem compute_statistics_row_counts_witness:
  "range_index ex_prod \<and> range_index ex_util_long \<and> range_index ex_util_short
   \<and> range_index ex_anti \<and> range_index ex_anti_long
   \<and> column_pos ''is_type_strain_header'' (columns ex_prod) \<noteq> None
   \<and> column_pos ''species'' (columns ex_prod) \<noteq> None
   \<and> numeric_metabolites ex_prod \<and> numeric_metabolites ex_util_long
   \<and> numeric_metabolites ex_util_short \<and> numeric_metabolites ex_anti
   \<and> length (rows ex_prod) < length (rows ex_util_long)
   \<and> compute_statistics ex_prod ex_util_long ex_anti = Inl IndexingError
   \<and> length (rows ex_util_short) < length (rows ex_prod)
   \<and> length (rows ex_prod) < length (rows ex_anti_long)
   \<and> compute_statistics ex_prod ex_util_short ex_anti_long = Inl IndexingError
   \<and> length (rows ex_util_short) \<le> length (rows ex_prod)
   \<and> length (rows ex_anti) \<le> length (rows ex_prod)
   \<and> compute_statistics ex_prod ex_util_short ex_anti \<noteq> Inl IndexingError
   \<and> (\<exists>ts nts tot. compute_statistics ex_prod ex_util_short ex_anti = Inr [ts, nts, tot]
        \<and> util_metabolites ts = positional_mask_total ex_prod (Ival 1) ex_util_short
        \<and> util_metabolites nts = positional_mask_total ex_prod (Ival 0) ex_util_short)
   \<and> positional_mask_total ex_prod (Ival 1) ex_util_short = 5
   \<and> positional_mask_total ex_prod (Ival 0) ex_util_short = 7"
proof -
  have h: "length (rows ex_prod) < length (rows ex_util_long)"
    "column_pos ''is_type_strain_header'' (columns ex_prod) \<noteq> None"
    "column_pos ''species'' (columns ex_prod) \<noteq> None"
    "numeric_metabolites ex_prod" "numeric_metabolites ex_util_long"
    "numeric_metabolites ex_util_short" "numeric_metabolites ex_anti"
    "length (rows ex_util_short) \<le> length (rows ex_prod)"
    "length (rows ex_anti) \<le> length (rows ex_prod)"
    "length (rows ex_util_short) < length (rows ex_prod)"
    "length (rows ex_prod) < length (rows ex_anti_long)"
    "positional_mask_total ex_prod (Ival 1) ex_util_short = 5"
    "positional_mask_total ex_prod (Ival 0) ex_util_short = 7"
    by code_simp+
  from compute_statistics_row_counts [OF ex_range_index(1) ex_range_index(5) ex_range_index(3)]
    h
  have a: "compute_statistics ex_prod ex_util_long ex_anti = Inl IndexingError"
    by blast
  from compute_statistics_row_counts [OF ex_range_index(1) ex_range_index(4) ex_anti_long_range]
    h
  have b: "compute_statistics ex_prod ex_util_short ex_anti_long = Inl IndexingError"
    by blast
  from compute_statistics_row_counts [OF ex_range_index(1) ex_range_index(4) ex_range_index(3)]
    h
  have c: "compute_statistics ex_prod ex_util_short ex_anti \<noteq> Inl IndexingError"
    "\<exists>ts nts tot. compute_statistics ex_prod ex_util_short ex_anti = Inr [ts, nts, tot]
        \<and> util_metabolites ts = positional_mask_total ex_prod (Ival 1) ex_util_short
        \<and> util_metabolites nts = positional_mask_total ex_prod (Ival 0) ex_util_short"
    by blast+
  from a b c h ex_range_index ex_anti_long_range show ?thesis
    by simp
qed

text \<open>
  C9 as stated fails: the utilization table has two rows, the production and the
  antimicrobial table three, and the statistics are returned; the two rows are selected
  by the first two entries of the production table's mask.
\<close>

theorem compute_statistics_shorter_table:
  "length (rows ex_util_short) = 2 \<and> length (rows ex_prod) = 3 \<and> length (rows ex_anti) = 3
   \<and> compute_statistics ex_prod ex_util_short ex_anti = Inr ex_stats_short"
  by code_simp

lemma descending_sort_insertion: "descending_sort insertion_sort_desc"
proof -
  have "sorted_wrt (\<lambda>a b. snd b \<le> snd a) (insertion_sort_desc xs)" for xs
  proof -
    have "sorted (map (\<lambda>p. - int (snd p)) (insertion_sort_desc xs))"
      by (simp add: insertion_sort_desc_def)
    then show ?thesis
      by (simp add: sorted_map)
  qed
  then show ?thesis
    by (simp add: descending_sort_def insertion_sort_desc_def)
qed

text \<open>
  C6. Whatever descending sort \<^verbatim>\<open>value_counts\<close> uses: for a table with a species
  column and every \<open>n\<close>, the ranking is returned, it has at most \<open>n\<close> entries, no entry
  has a higher count than an entry before it, and it is empty when the table has no rows.
\<close>

theorem top_species_bounds:
  assumes ds: "descending_sort sort_values"
    and col: "column_pos ''species'' (columns df) \<noteq> None"
  shows "\<exists>res. top_species sort_values n df = Inr res
     \<and> length res \<le> n
     \<and> sorted_wrt (\<lambda>a b. snd b \<le> snd a) res
     \<and> (rows df = [] \<longrightarrow> res = [])"
proof -
  from col obtain js where js: "column_pos ''species'' (columns df) = Some js"
    by auto
  let ?s = "map (\<lambda>(l, r). (l, cell_at r js)) (rows df)"
  let ?res = "head n (value_counts sort_values ?s)"
  have r: "top_species sort_values n df = Inr ?res"
    by (simp add: top_species_def getitem_def js bind_err_def)
  have len: "length ?res \<le> n"
    by (simp add: head_def)
  have "sorted_wrt (\<lambda>a b. snd b \<le> snd a) (value_counts sort_values ?s)"
    using ds by (simp add: descending_sort_def value_counts_def)
  then have srt: "sorted_wrt (\<lambda>a b. snd b \<le> snd a) ?res"
    unfolding head_def by (rule sorted_wrt_take)
  have emp: "?res = []" if "rows df = []"
  proof -
    from ds have "mset (sort_values []) = mset []"
      unfolding descending_sort_def by blast
    then have "sort_values [] = []"
      by simp
    with that show ?thesis
      by (simp add: head_def value_counts_def)
  qed
  from r len srt emp show ?thesis
    by blast
qed

theorem top_species_bounds_witness:
  "descending_sort insertion_sort_desc
   \<and> column_pos ''species'' (columns ex_prod) \<noteq> None
   \<and> top_species insertion_sort_desc 10 ex_prod = Inr [(Sval ''Bacillus'', 2), (Sval ''Vibrio'', 1)]
   \<and> top_species insertion_sort_desc 1 ex_prod = Inr [(Sval ''Bacillus'', 2)]
   \<and> top_species insertion_sort_desc 10 (ex_prod\<lparr>rows := []\<rparr>) = Inr []
   \<and> (\<exists>res. top_species insertion_sort_desc 1 ex_prod = Inr res
     \<and> length res \<le> 1
     \<and> sorted_wrt (\<lambda>a b. snd b \<le> snd a) res)"
proof -
  have c: "column_pos ''species'' (columns ex_prod) \<noteq> None"
    by code_simp
  have v: "top_species insertion_sort_desc 10 ex_prod = Inr [(Sval ''Bacillus'', 2), (Sval ''Vibrio'', 1)]"
    "top_species insertion_sort_desc 1 ex_prod = Inr [(Sval ''Bacillus'', 2)]"
    "top_species insertion_sort_desc 10 (ex_prod\<lparr>rows := []\<rparr>) = Inr []"
    by code_simp+
  from top_species_bounds [OF descending_sort_insertion c, of 1] c v descending_sort_insertion
  show ?thesis by blast
qed

end
